theory Spec2Isabelle
  imports Main "HOL-Library.Sublist" "HOL-Library.AList" "HOL-Library.Word"
begin

section \<open>Data model of the Percify avatar agent (src/src/server.ts)\<close>

text \<open>
  The string unions of \<^verbatim>\<open>AvatarProfile.tone\<close> and \<^verbatim>\<open>MemoryItem.type\<close> are
  datatypes; the strings they stand for at run time are given by \<open>tone_string\<close> and
  \<open>type_string\<close>, which is what a template literal or a truthiness test sees.
\<close>

datatype Tone = Casual | Professional | Playful | Technical

fun tone_string :: "Tone \<Rightarrow> string" where
  "tone_string Casual = ''casual''"
| "tone_string Professional = ''professional''"
| "tone_string Playful = ''playful''"
| "tone_string Technical = ''technical''"

datatype MemoryType = Task | Preference | Note

fun type_string :: "MemoryType \<Rightarrow> string" where
  "type_string Task = ''task''"
| "type_string Preference = ''preference''"
| "type_string Note = ''note''"

text \<open>
  \<^verbatim>\<open>AvatarProfile\<close>, \<^verbatim>\<open>MemoryItem\<close> and \<^verbatim>\<open>AgentState\<close>. The two \<^verbatim>\<open>id\<close> fields and
  the \<^verbatim>\<open>type\<close> field carry the name of their record as a suffix.
\<close>

record AvatarProfile =
  id_AvatarProfile :: string
  displayName :: string
  bio :: string
  tone :: Tone
  expertiseTags :: "string list"

record MemoryItem =
  id_MemoryItem :: string
  createdAt :: string
  type_MemoryItem :: MemoryType
  content :: string

record AgentState =
  avatar :: "AvatarProfile option"
  memories :: "MemoryItem list"

text \<open>
  \<^verbatim>\<open>Partial<AvatarProfile>\<close>, the argument of \<^verbatim>\<open>saveAvatarProfile\<close>: every field may
  be \<^verbatim>\<open>undefined\<close>, which is \<open>None\<close>.
\<close>

record PartialAvatarProfile =
  id_Partial :: "string option"
  displayName_Partial :: "string option"
  bio_Partial :: "string option"
  tone_Partial :: "Tone option"
  expertiseTags_Partial :: "string list option"

text \<open>\<^verbatim>\<open>initialState = { avatar: undefined, memories: [] }\<close>\<close>

definition initialState :: AgentState where
  "initialState = \<lparr>avatar = None, memories = []\<rparr>"

subsection \<open>JavaScript primitives used by the agent\<close>

text \<open>
  \<^verbatim>\<open>Array.prototype.slice(start)\<close> with one argument: a negative start counts from the
  end and is clamped at 0, a non-negative one is clamped at the length.
\<close>

definition slice_from :: "int \<Rightarrow> 'a list \<Rightarrow> 'a list" where
  "slice_from start xs =
     (let len = int (length xs);
          k = (if start < 0 then max (len + start) 0 else min start len)
      in drop (nat k) xs)"

text \<open>
  Truthiness, as \<^verbatim>\<open>||\<close> tests it: a string is truthy when it is not empty, an array
  always (the empty array too); a tone is one of four strings. \<^verbatim>\<open>undefined\<close> is falsy.
\<close>

definition truthy_string :: "string \<Rightarrow> bool" where
  "truthy_string s = (s \<noteq> [])"

definition truthy_array :: "'a list \<Rightarrow> bool" where
  "truthy_array xs = True"

definition truthy_tone :: "Tone \<Rightarrow> bool" where
  "truthy_tone t = truthy_string (tone_string t)"

text \<open>
  \<^verbatim>\<open>a || b\<close> where both sides may be \<^verbatim>\<open>undefined\<close>, and \<^verbatim>\<open>a || d\<close> where the right
  side is a value that is always there (the hard default closing a chain).
\<close>

definition js_or :: "('a \<Rightarrow> bool) \<Rightarrow> 'a option \<Rightarrow> 'a option \<Rightarrow> 'a option" where
  "js_or truthy a b = (case a of None \<Rightarrow> b | Some v \<Rightarrow> if truthy v then Some v else b)"

definition js_or_value :: "('a \<Rightarrow> bool) \<Rightarrow> 'a option \<Rightarrow> 'a \<Rightarrow> 'a" where
  "js_or_value truthy a d = (case a of None \<Rightarrow> d | Some v \<Rightarrow> if truthy v then v else d)"

section \<open>The store: reading\<close>

text \<open>
  \<^verbatim>\<open>getAvatarState()\<close>:
  \<^verbatim>\<open>return { avatar: this.state.avatar, memories: this.state.memories.slice(-5) }\<close>
\<close>

definition getAvatarState :: "AgentState \<Rightarrow> AgentState" where
  "getAvatarState st = \<lparr>avatar = avatar st, memories = slice_from (- 5) (memories st)\<rparr>"


section \<open>The store: writing\<close>

text \<open>
  \<^verbatim>\<open>saveAvatarProfile(profileInput)\<close>. \<open>generatedId\<close> is what \<^verbatim>\<open>generateId()\<close> of the
  \<^verbatim>\<open>ai\<close> package returns when it is called; \<^verbatim>\<open>currentAvatar?.x\<close> is
  \<open>map_option x currentAvatar\<close>. The function returns the profile and replaces the
  stored avatar (\<^verbatim>\<open>setState({...this.state, avatar: updatedAvatar})\<close>).
\<close>

definition saveAvatarProfile ::
  "string \<Rightarrow> PartialAvatarProfile \<Rightarrow> AgentState \<Rightarrow> AvatarProfile \<times> AgentState" where
  "saveAvatarProfile generatedId profileInput st =
     (let currentAvatar = avatar st;
          updatedAvatar =
            \<lparr>id_AvatarProfile =
               js_or_value truthy_string (map_option id_AvatarProfile currentAvatar) generatedId,
             displayName =
               js_or_value truthy_string
                 (js_or truthy_string (displayName_Partial profileInput)
                    (map_option displayName currentAvatar))
                 ''Unnamed Avatar'',
             bio =
               js_or_value truthy_string
                 (js_or truthy_string (bio_Partial profileInput) (map_option bio currentAvatar))
                 '''',
             tone =
               js_or_value truthy_tone
                 (js_or truthy_tone (tone_Partial profileInput) (map_option tone currentAvatar))
                 Casual,
             expertiseTags =
               js_or_value truthy_array
                 (js_or truthy_array (expertiseTags_Partial profileInput)
                    (map_option expertiseTags currentAvatar))
                 []\<rparr>
      in (updatedAvatar, st\<lparr>avatar := Some updatedAvatar\<rparr>))"

text \<open>
  \<^verbatim>\<open>saveMemory(type, content)\<close>. \<open>generatedId\<close> is the result of \<^verbatim>\<open>generateId()\<close> and
  \<open>now\<close> that of \<^verbatim>\<open>new Date().toISOString()\<close>. The new item goes to the end, a
  sequence of more than 50 items is cut to \<^verbatim>\<open>slice(-50)\<close>, the state is replaced and
  \<^verbatim>\<open>slice(-5)\<close> of the stored sequence is returned.
\<close>

definition saveMemory ::
  "string \<Rightarrow> string \<Rightarrow> MemoryType \<Rightarrow> string \<Rightarrow> AgentState \<Rightarrow> MemoryItem list \<times> AgentState" where
  "saveMemory generatedId now type' content' st =
     (let newMemory =
            \<lparr>id_MemoryItem = generatedId, createdAt = now,
             type_MemoryItem = type', content = content'\<rparr>;
          appended = memories st @ [newMemory];
          updatedMemories =
            (if length appended > 50 then slice_from (- 50) appended else appended)
      in (slice_from (- 5) updatedMemories, st\<lparr>memories := updatedMemories\<rparr>))"

text \<open>
  A sequence of \<^verbatim>\<open>saveMemory\<close> calls, each given as (generated id, timestamp, type,
  content), run one after the other on the state; \<open>item_of\<close> is the item a call creates.
\<close>

definition item_of :: "string \<times> string \<times> MemoryType \<times> string \<Rightarrow> MemoryItem" where
  "item_of c =
     (case c of (i, t, ty, txt) \<Rightarrow>
        \<lparr>id_MemoryItem = i, createdAt = t, type_MemoryItem = ty, content = txt\<rparr>)"

fun saveMemory_calls ::
  "(string \<times> string \<times> MemoryType \<times> string) list \<Rightarrow> AgentState \<Rightarrow> AgentState" where
  "saveMemory_calls [] st = st"
| "saveMemory_calls ((i, t, ty, txt) # cs) st =
     saveMemory_calls cs (snd (saveMemory i t ty txt st))"

section \<open>The context assembler\<close>

text \<open>
  Strings are lists of bytes; a character outside ASCII stands as its UTF-8 bytes.
  \<open>nl\<close> is the line feed and \<open>arrow\<close> the rightwards arrow (U+2192) of the prompt.
\<close>

definition nl :: string where
  "nl = [CHR 0x0A]"

definition arrow :: string where
  "arrow = [CHR 0xE2, CHR 0x86, CHR 0x92]"

text \<open>\<^verbatim>\<open>Array.prototype.join(separator)\<close> on an array of strings.\<close>

fun join :: "string \<Rightarrow> string list \<Rightarrow> string" where
  "join sep [] = []"
| "join sep [x] = x"
| "join sep (x # y # ys) = x @ sep @ join sep (y # ys)"

text \<open>
  The loop \<^verbatim>\<open>for (const mem of recentMemories) context += ...\<close> of
  \<^verbatim>\<open>buildContextString\<close>; \<open>toLocaleDateString s\<close> stands for
  \<^verbatim>\<open>new Date(s).toLocaleDateString()\<close>, which the host's runtime computes.
\<close>

fun append_memory_lines :: "(string \<Rightarrow> string) \<Rightarrow> MemoryItem list \<Rightarrow> string \<Rightarrow> string" where
  "append_memory_lines toLocaleDateString [] context = context"
| "append_memory_lines toLocaleDateString (mem # rest) context =
     append_memory_lines toLocaleDateString rest
       (context @ ''- ['' @ type_string (type_MemoryItem mem) @ ''] '' @ content mem
          @ '' ('' @ toLocaleDateString (createdAt mem) @ '')'' @ nl)"

text \<open>\<^verbatim>\<open>buildContextString()\<close>, reading the state passed in.\<close>

definition buildContextString :: "(string \<Rightarrow> string) \<Rightarrow> AgentState \<Rightarrow> string" where
  "buildContextString toLocaleDateString st =
     (let recentMemories = slice_from (- 3) (memories st);
          context0 = ''## Current Avatar State'' @ nl;
          context1 =
            (case avatar st of
               Some a \<Rightarrow>
                 context0
                 @ (''- Name: '' @ displayName a @ nl)
                 @ (''- Bio: '' @ js_or_value truthy_string (Some (bio a)) ''Not set'' @ nl)
                 @ (''- Tone: '' @ tone_string (tone a) @ nl)
                 @ (''- Expertise: ''
                    @ (if length (expertiseTags a) > 0 then join '', '' (expertiseTags a)
                       else ''None specified'')
                    @ nl)
             | None \<Rightarrow> context0 @ ''- No avatar profile set yet. The user can create one.'' @ nl);
          context2 = context1 @ nl @ ''## Recent Memories'' @ nl
      in if length recentMemories > 0
         then append_memory_lines toLocaleDateString recentMemories context2
         else context2 @ ''- No memories stored yet.'' @ nl)"

text \<open>
  \<^verbatim>\<open>getSystemPrompt()\<close>. \<^verbatim>\<open>toneInstructions\<close> is a \<^verbatim>\<open>Record<string, string>\<close>, looked up
  with the tone string; a template literal prints a missing entry as \<^verbatim>\<open>undefined\<close>.
  \<open>getSchedulePrompt\<close> is the function of the \<^verbatim>\<open>agents\<close> package, applied to the
  current time \<open>now\<close> (\<^verbatim>\<open>new Date()\<close>).
\<close>

definition toneInstructions :: "(string \<times> string) list" where
  "toneInstructions =
     [(''casual'', ''Be friendly, relaxed, and approachable. Use conversational language.''),
      (''professional'',
       ''Be formal, precise, and business-like. Maintain a professional demeanor.''),
      (''playful'', ''Be fun, energetic, and use humor when appropriate. Keep things light.''),
      (''technical'',
       ''Be detailed, accurate, and use technical terminology. Focus on precision.'')]"

definition template_value :: "string option \<Rightarrow> string" where
  "template_value v = (case v of None \<Rightarrow> ''undefined'' | Some s \<Rightarrow> s)"

definition prompt_before_tone :: string where
  "prompt_before_tone =
     ''You are Percify Avatar Co-Pilot, an AI assistant that maintains a persistent avatar persona for each user.''
     @ nl @ nl
     @ ''## Your Behavior'' @ nl
     @ ''1. ALWAYS think in steps: understand user request '' @ arrow
     @ '' inspect avatar + memories '' @ arrow @ '' decide actions '' @ arrow @ '' respond'' @ nl
     @ ''2. Maintain the avatar's tone (''"

definition prompt_after_tone :: string where
  "prompt_after_tone =
     nl
     @ ''3. Store memories for recurring preferences and important tasks'' @ nl
     @ ''4. When the user wants to set or change their avatar, use the saveAvatarProfile tool'' @ nl
     @ ''5. When the user shares preferences or asks you to remember something, use the saveMemory tool'' @ nl
     @ ''6. When the user asks for research or information lookup, use the researchWeb tool'' @ nl
     @ nl
     @ ''## Available Actions'' @ nl
     @ ''- update_avatar: Update the user's avatar profile (name, bio, tone, expertise)'' @ nl
     @ ''- store_memory: Save important information, preferences, or task notes'' @ nl
     @ ''- research: Look up information from web sources'' @ nl
     @ ''- chat: Just respond to the user without taking action'' @ nl
     @ ''- combo: Perform multiple actions in sequence'' @ nl
     @ nl
     @ ''## Response Format'' @ nl
     @ ''When you need to take actions, use the available tools. Always explain what you did after taking actions.''
     @ nl @ nl"

definition getSystemPrompt ::
  "('d \<Rightarrow> string) \<Rightarrow> (string \<Rightarrow> string) \<Rightarrow> 'd \<Rightarrow> AgentState \<Rightarrow> string" where
  "getSystemPrompt getSchedulePrompt toLocaleDateString now st =
     (let tone' =
            js_or_value truthy_string (map_option (\<lambda>a. tone_string (tone a)) (avatar st))
              ''casual''
      in prompt_before_tone @ tone' @ '') in ALL responses: ''
         @ template_value (map_of toneInstructions tone')
         @ prompt_after_tone
         @ getSchedulePrompt now @ nl @ nl
         @ buildContextString toLocaleDateString st)"

section \<open>Values at run time\<close>

text \<open>
  What the persisted state or a tool call's arguments can be at run time, whatever their
  TypeScript type says: a JSON-like value. Numbers are integers here; the code below
  only asks a number for its \<^verbatim>\<open>typeof\<close>. An object is the list of its own properties in
  insertion order; a lookup takes the first entry of a key.
\<close>

datatype js_value =
    JUndefined
  | JNull
  | JBool bool
  | JNum int
  | JStr string
  | JArr "js_value list"
  | JObj "(string \<times> js_value) list"

datatype js_error = TypeError | FetchError | BodyError

text \<open>Truthiness, \<^verbatim>\<open>typeof\<close> and \<^verbatim>\<open>Array.isArray\<close>.\<close>

fun truthy :: "js_value \<Rightarrow> bool" where
  "truthy JUndefined = False"
| "truthy JNull = False"
| "truthy (JBool b) = b"
| "truthy (JNum n) = (n \<noteq> 0)"
| "truthy (JStr s) = (s \<noteq> [])"
| "truthy (JArr xs) = True"
| "truthy (JObj fs) = True"

fun typeof :: "js_value \<Rightarrow> string" where
  "typeof JUndefined = ''undefined''"
| "typeof JNull = ''object''"
| "typeof (JBool b) = ''boolean''"
| "typeof (JNum n) = ''number''"
| "typeof (JStr s) = ''string''"
| "typeof (JArr xs) = ''object''"
| "typeof (JObj fs) = ''object''"

fun isArray :: "js_value \<Rightarrow> bool" where
  "isArray (JArr xs) = True"
| "isArray v = False"

text \<open>The container the agent expects: an object that is not an array.\<close>

fun is_plain_object :: "js_value \<Rightarrow> bool" where
  "is_plain_object (JObj fs) = True"
| "is_plain_object v = False"

text \<open>The decimal numeral of an array index, the key under which an array holds an item.\<close>

definition digit :: "nat \<Rightarrow> char" where
  "digit n = ''0123456789'' ! (n mod 10)"

fun decimal :: "nat \<Rightarrow> string" where
  "decimal n = (if n < 10 then [digit n] else decimal (n div 10) @ [digit n])"

declare decimal.simps [simp del]

text \<open>
  The own enumerable properties of a value, which an object spread \<^verbatim>\<open>{...v}\<close> copies:
  the entries of an object, the items of an array under their indices, the characters
  of a string under theirs, and nothing for the other values.
\<close>

fun own_properties :: "js_value \<Rightarrow> (string \<times> js_value) list" where
  "own_properties (JObj fs) = fs"
| "own_properties (JArr xs) = zip (map decimal [0..<length xs]) xs"
| "own_properties (JStr s) = zip (map decimal [0..<length s]) (map (\<lambda>c. JStr [c]) s)"
| "own_properties v = []"

text \<open>
  Reading a property \<^verbatim>\<open>v.k\<close>: a \<^verbatim>\<open>TypeError\<close> on \<^verbatim>\<open>undefined\<close> and \<^verbatim>\<open>null\<close>, the own
  property otherwise and \<^verbatim>\<open>undefined\<close> when there is none. Inherited properties
  (\<^verbatim>\<open>length\<close>, the methods) are left out: the agent reads \<^verbatim>\<open>memories\<close> only.
\<close>

fun get_property :: "js_value \<Rightarrow> string \<Rightarrow> js_error + js_value" where
  "get_property JUndefined k = Inl TypeError"
| "get_property JNull k = Inl TypeError"
| "get_property v k =
     Inr (case map_of (own_properties v) k of None \<Rightarrow> JUndefined | Some x \<Rightarrow> x)"

section \<open>Start of the agent\<close>

text \<open>
  \<^verbatim>\<open>onStart()\<close> on the state as it is found, \<^verbatim>\<open>setState\<close> replacing it. The result is
  the state after the method, or the error it throws.
\<close>

definition onStart :: "js_value \<Rightarrow> js_error + js_value" where
  "onStart state0 =
     (let state1 =
            (if \<not> truthy state0 \<or> typeof state0 \<noteq> ''object''
             then JObj [(''avatar'', JUndefined), (''memories'', JArr [])]
             else state0)
      in case get_property state1 ''memories'' of
           Inl e \<Rightarrow> Inl e
         | Inr m \<Rightarrow>
             if \<not> isArray m
             then Inr (JObj (AList.update ''memories'' (JArr []) (own_properties state1)))
             else Inr state1)"

section \<open>The tool boundary (src/src/tools.ts)\<close>

text \<open>
  A tool returns \<^verbatim>\<open>{ error }\<close> or \<^verbatim>\<open>{ success: true, message, ... }\<close> with a payload.
\<close>

datatype 'a tool_result = ToolError string | ToolSuccess string 'a

text \<open>
  The input schema of the \<^verbatim>\<open>saveMemory\<close> tool,
  \<^verbatim>\<open>z.object({ type: z.enum(["task", "preference", "note"]), content: z.string() })\<close>:
  the parsed input, or \<open>None\<close> when the arguments do not match.
\<close>

definition memory_type_enum :: "string \<Rightarrow> MemoryType option" where
  "memory_type_enum s =
     (if s = ''task'' then Some Task
      else if s = ''preference'' then Some Preference
      else if s = ''note'' then Some Note
      else None)"

definition saveMemory_inputSchema :: "js_value \<Rightarrow> (MemoryType \<times> string) option" where
  "saveMemory_inputSchema input =
     (case input of
        JObj fs \<Rightarrow>
          (case map_of fs ''type'' of
             Some (JStr t) \<Rightarrow>
               (case memory_type_enum t of
                  Some ty \<Rightarrow>
                    (case map_of fs ''content'' of
                       Some (JStr c) \<Rightarrow> Some (ty, c)
                     | _ \<Rightarrow> None)
                | None \<Rightarrow> None)
           | _ \<Rightarrow> None)
      | _ \<Rightarrow> None)"

text \<open>
  \<^verbatim>\<open>execute\<close> of the \<^verbatim>\<open>saveMemory\<close> tool. The agent of \<^verbatim>\<open>getCurrentAgent\<close> is its state
  when there is one. On a state of type \<^verbatim>\<open>AgentState\<close> the agent's \<^verbatim>\<open>saveMemory\<close> does
  not throw, so the \<^verbatim>\<open>catch\<close> branch is never entered.
\<close>

definition saveMemory_execute ::
  "string \<Rightarrow> string \<Rightarrow> MemoryType \<Rightarrow> string \<Rightarrow> AgentState option
     \<Rightarrow> MemoryItem list tool_result \<times> AgentState option" where
  "saveMemory_execute generatedId now type' content' agent =
     (case agent of
        None \<Rightarrow> (ToolError ''Agent not available'', None)
      | Some st \<Rightarrow>
          (let r = saveMemory generatedId now type' content' st;
               recentMemories = fst r
           in (ToolSuccess
                 (''Memory stored successfully! I'll remember: '' @ [CHR 0x22] @ content'
                    @ [CHR 0x22])
                 recentMemories,
               Some (snd r))))"

text \<open>
  A call of the tool: the arguments are checked against the schema, and \<^verbatim>\<open>execute\<close>
  runs on the parsed input only. \<open>None\<close> is the call refused for its arguments.
\<close>

definition saveMemory_tool ::
  "string \<Rightarrow> string \<Rightarrow> js_value \<Rightarrow> AgentState option
     \<Rightarrow> MemoryItem list tool_result option \<times> AgentState option" where
  "saveMemory_tool generatedId now input agent =
     (case saveMemory_inputSchema input of
        None \<Rightarrow> (None, agent)
      | Some (ty, c) \<Rightarrow>
          (let r = saveMemory_execute generatedId now ty c agent in (Some (fst r), snd r)))"

section \<open>Web research\<close>

text \<open>
  A JavaScript string is a sequence of UTF-16 code units. The regular expressions of
  \<^verbatim>\<open>researchWeb\<close> carry no \<^verbatim>\<open>u\<close> flag, so they match code unit by code unit, and
  \<^verbatim>\<open>trim\<close> and \<^verbatim>\<open>substring\<close> work on code units too. \<open>js s\<close> is the JavaScript string of
  an ASCII literal of the source.
\<close>

type_synonym js_string = "16 word list"

definition js :: "string \<Rightarrow> js_string" where
  "js s = map (\<lambda>c. of_nat (of_char c)) s"

text \<open>
  \<^verbatim>\<open>String.prototype.replace(re, r)\<close> with a global regular expression: the string is
  scanned from the left, a match at the current position is replaced by \<open>r\<close> and the
  scan goes on behind it, a position with no match keeps its code unit. The regular
  expression is given by \<open>m\<close>: the rest of the string behind a match at its head, or
  \<open>None\<close> when there is none. None of the expressions below matches the empty string.
\<close>

fun replace_all :: "(js_string \<Rightarrow> js_string option) \<Rightarrow> js_string \<Rightarrow> js_string \<Rightarrow> js_string" where
  "replace_all m r [] = []"
| "replace_all m r (c # cs) =
     (case m (c # cs) of
        None \<Rightarrow> c # replace_all m r cs
      | Some rest \<Rightarrow>
          if length rest < length (c # cs) then r @ replace_all m r rest
          else c # replace_all m r cs)"

text \<open>
  White space, as \<^verbatim>\<open>\s\<close> matches it and \<^verbatim>\<open>trim\<close> removes it: the white space and line
  terminator code points of ECMAScript, which are tab, line feed, vertical tab, form
  feed, carriage return, space, U+00A0, U+1680, U+2000 to U+200A, U+2028, U+2029,
  U+202F, U+205F, U+3000 and U+FEFF. Each of them is one code unit.
\<close>

definition is_space :: "16 word \<Rightarrow> bool" where
  "is_space u =
     (u \<in> set [0x0009, 0x000A, 0x000B, 0x000C, 0x000D, 0x0020, 0x00A0, 0x1680,
               0x2000, 0x2001, 0x2002, 0x2003, 0x2004, 0x2005, 0x2006, 0x2007,
               0x2008, 0x2009, 0x200A, 0x2028, 0x2029, 0x202F, 0x205F, 0x3000, 0xFEFF])"

text \<open>
  Letter case under the \<^verbatim>\<open>i\<close> flag. The patterns are ASCII, and without the \<^verbatim>\<open>u\<close> flag
  a code unit of 128 or more is never folded to an ASCII one, so it matches none of
  their characters: folding the ASCII capitals is all that matters.
\<close>

definition lower :: "16 word \<Rightarrow> 16 word" where
  "lower u = (if 65 \<le> u \<and> u \<le> 90 then u + 32 else u)"

definition starts_with_ci :: "js_string \<Rightarrow> js_string \<Rightarrow> bool" where
  "starts_with_ci p s = (map lower (take (length p) s) = map lower p)"

text \<open>The rest behind the first \<open>x\<close>, and behind the first occurrence of \<open>p\<close> in any case.\<close>

fun after_char :: "16 word \<Rightarrow> js_string \<Rightarrow> js_string option" where
  "after_char x [] = None"
| "after_char x (c # cs) = (if c = x then Some cs else after_char x cs)"

fun after_ci :: "js_string \<Rightarrow> js_string \<Rightarrow> js_string option" where
  "after_ci p [] = None"
| "after_ci p (c # cs) =
     (if starts_with_ci p (c # cs) then Some (drop (length p) (c # cs)) else after_ci p cs)"

text \<open>
  \<^verbatim>\<open>/<script[^>]*>[\s\S]*?<\/script>/gi\<close> and the same for \<^verbatim>\<open>style\<close>: the opening of
  the tag in any case, everything up to the first \<^verbatim>\<open>>\<close>, and from there the shortest
  text that ends with the closing tag.
\<close>

definition match_element :: "string \<Rightarrow> js_string \<Rightarrow> js_string option" where
  "match_element tag s =
     (if starts_with_ci (js (''<'' @ tag)) s
      then (case after_char (of_nat (of_char (CHR ''>''))) (drop (length (''<'' @ tag)) s) of
              None \<Rightarrow> None
            | Some inner \<Rightarrow> after_ci (js (''</'' @ tag @ ''>'')) inner)
      else None)"

text \<open>\<^verbatim>\<open>/<[^>]+>/g\<close>: a \<^verbatim>\<open><\<close>, at least one code unit that is not \<^verbatim>\<open>>\<close>, up to the first \<^verbatim>\<open>>\<close>.\<close>

definition match_tag :: "js_string \<Rightarrow> js_string option" where
  "match_tag s =
     (case s of
        c # d # ds \<Rightarrow>
          if c = of_nat (of_char (CHR ''<'')) \<and> d \<noteq> of_nat (of_char (CHR ''>''))
          then after_char (of_nat (of_char (CHR ''>''))) ds
          else None
      | _ \<Rightarrow> None)"

text \<open>\<^verbatim>\<open>/\s+/g\<close>: a longest run of white space.\<close>

definition match_spaces :: "js_string \<Rightarrow> js_string option" where
  "match_spaces s =
     (case s of
        c # cs \<Rightarrow> if is_space c then Some (dropWhile is_space cs) else None
      | [] \<Rightarrow> None)"

text \<open>\<^verbatim>\<open>String.prototype.trim()\<close>\<close>

definition trim :: "js_string \<Rightarrow> js_string" where
  "trim s = rev (dropWhile is_space (rev (dropWhile is_space s)))"

text \<open>
  The text taken from the page: scripts and styles removed, tags replaced by a space,
  white space collapsed, the ends trimmed.
\<close>

definition textContent :: "js_string \<Rightarrow> js_string" where
  "textContent html =
     trim (replace_all match_spaces (js '' '')
       (replace_all match_tag (js '' '')
         (replace_all (match_element ''style'') []
           (replace_all (match_element ''script'') [] html))))"

text \<open>
  The response of \<^verbatim>\<open>fetch\<close>: its status, and what \<^verbatim>\<open>await response.text()\<close> gives, the
  body as a JavaScript string or the error it throws. \<^verbatim>\<open>await fetch(sourceUrl)\<close> itself
  gives a response (whatever its status) or throws.
\<close>

record Response =
  status :: nat
  text_Response :: "js_error + js_string"

record ResearchResult =
  query :: js_string
  snippet :: js_string
  sourceUrl :: js_string

text \<open>The snippet of the \<^verbatim>\<open>catch\<close> branch.\<close>

definition fallbackSnippet :: "js_string \<Rightarrow> js_string" where
  "fallbackSnippet query' =
     js (''Research on '' @ [CHR 0x22]) @ query'
     @ js ([CHR 0x22] @ '' completed. Cloudflare Agents SDK enables building AI-powered applications with persistent state, real-time communication, and tool integration capabilities.'')"

text \<open>\<^verbatim>\<open>try { ... } catch (error) { ... }\<close>\<close>

definition try_catch :: "js_error + 'a \<Rightarrow> (js_error \<Rightarrow> js_error + 'a) \<Rightarrow> js_error + 'a" where
  "try_catch body handler = (case body of Inl e \<Rightarrow> handler e | Inr v \<Rightarrow> Inr v)"

text \<open>
  \<^verbatim>\<open>researchWeb(query)\<close>, given the outcome \<open>fetched\<close> of \<^verbatim>\<open>await fetch(sourceUrl)\<close>. The
  result is what the promise resolves to, or the error it is rejected with.
  \<^verbatim>\<open>substring(0, 500)\<close> keeps the first 500 code units.
\<close>

definition researchWeb :: "js_error + Response \<Rightarrow> js_string \<Rightarrow> js_error + ResearchResult" where
  "researchWeb fetched query' =
     (let sourceUrl' = js ''https://developers.cloudflare.com/agents/''
      in try_catch
           (case fetched of
              Inl e \<Rightarrow> Inl e
            | Inr response \<Rightarrow>
                (case text_Response response of
                   Inl e \<Rightarrow> Inl e
                 | Inr html \<Rightarrow>
                     (let snippet' = take 500 (textContent html) @ js ''...''
                      in Inr \<lparr>query = query', snippet = snippet', sourceUrl = sourceUrl'\<rparr>)))
           (\<lambda>error.
              Inr \<lparr>query = query', snippet = fallbackSnippet query', sourceUrl = sourceUrl'\<rparr>))"

text \<open>
  The scenario of 52 appends with the contents \<^verbatim>\<open>m1\<close> .. \<^verbatim>\<open>m52\<close>, as notes, each
  with an id of its own; all carry the same timestamp.
\<close>

definition scenario_52_calls :: "(string \<times> string \<times> MemoryType \<times> string) list" where
  "scenario_52_calls =
     map (\<lambda>(i, c). (i, ''2025-01-01T00:00:00.000Z'', Note, c))
       [(''id-1'', ''m1''), (''id-2'', ''m2''), (''id-3'', ''m3''), (''id-4'', ''m4''),
        (''id-5'', ''m5''), (''id-6'', ''m6''), (''id-7'', ''m7''), (''id-8'', ''m8''),
        (''id-9'', ''m9''), (''id-10'', ''m10''), (''id-11'', ''m11''), (''id-12'', ''m12''),
        (''id-13'', ''m13''), (''id-14'', ''m14''), (''id-15'', ''m15''), (''id-16'', ''m16''),
        (''id-17'', ''m17''), (''id-18'', ''m18''), (''id-19'', ''m19''), (''id-20'', ''m20''),
        (''id-21'', ''m21''), (''id-22'', ''m22''), (''id-23'', ''m23''), (''id-24'', ''m24''),
        (''id-25'', ''m25''), (''id-26'', ''m26''), (''id-27'', ''m27''), (''id-28'', ''m28''),
        (''id-29'', ''m29''), (''id-30'', ''m30''), (''id-31'', ''m31''), (''id-32'', ''m32''),
        (''id-33'', ''m33''), (''id-34'', ''m34''), (''id-35'', ''m35''), (''id-36'', ''m36''),
        (''id-37'', ''m37''), (''id-38'', ''m38''), (''id-39'', ''m39''), (''id-40'', ''m40''),
        (''id-41'', ''m41''), (''id-42'', ''m42''), (''id-43'', ''m43''), (''id-44'', ''m44''),
        (''id-45'', ''m45''), (''id-46'', ''m46''), (''id-47'', ''m47''), (''id-48'', ''m48''),
        (''id-49'', ''m49''), (''id-50'', ''m50''), (''id-51'', ''m51''), (''id-52'', ''m52'')]"

section \<open>Properties\<close>

subsection \<open>Slicing from the end\<close>

lemma slice_from_neg:
  "0 < k \<Longrightarrow> slice_from (- int k) xs = drop (length xs - k) xs"
  by (simp add: slice_from_def Let_def nat_diff_distrib' max_def)

lemma slice_from_neg_length:
  "0 < k \<Longrightarrow> length (slice_from (- int k) xs) = min k (length xs)"
  by (simp add: slice_from_neg)

lemma slice_from_suffix: "suffix (slice_from i xs) xs"
  by (simp add: slice_from_def Let_def suffix_drop)

subsection \<open>Saving the avatar profile\<close>

lemma truthy_tone_always: "truthy_tone t"
  by (cases t) (simp_all add: truthy_tone_def truthy_string_def)

text \<open>
  Claim C1, as amended. For every partial profile \<open>P\<close>, every generated id \<open>g\<close> and every
  prior state, \<^verbatim>\<open>saveAvatarProfile\<close> returns a complete profile, stores it as the avatar
  and leaves the memories alone. \<open>displayName\<close> and \<open>bio\<close> are \<open>P\<close>'s value when present and
  not empty, else the existing avatar's value when there is an avatar and the value is
  not empty, else the hard default (\<^verbatim>\<open>Unnamed Avatar\<close>, the empty string). \<open>tone\<close> is
  \<open>P\<close>'s value when present, else the existing one, else \<open>Casual\<close>. \<open>expertiseTags\<close> is
  \<open>P\<close>'s value whenever it is present, the empty list included (an empty array is
  truthy), else the existing one, else the empty list. The id is the existing avatar's
  when there is one with a non-empty id, and the generated id otherwise; with a non-empty
  generated id, the id of the first result is kept by every later call.
\<close>

theorem saveAvatarProfile_merge:
  "avatar (snd (saveAvatarProfile g P st)) = Some (fst (saveAvatarProfile g P st))
   \<and> memories (snd (saveAvatarProfile g P st)) = memories st
   \<and> id_AvatarProfile (fst (saveAvatarProfile g P st)) =
       (if map_option id_AvatarProfile (avatar st) \<notin> {None, Some []}
        then id_AvatarProfile (the (avatar st)) else g)
   \<and> displayName (fst (saveAvatarProfile g P st)) =
       (if displayName_Partial P \<notin> {None, Some []} then the (displayName_Partial P)
        else if map_option displayName (avatar st) \<notin> {None, Some []}
        then displayName (the (avatar st)) else ''Unnamed Avatar'')
   \<and> bio (fst (saveAvatarProfile g P st)) =
       (if bio_Partial P \<notin> {None, Some []} then the (bio_Partial P)
        else if avatar st \<noteq> None then bio (the (avatar st)) else [])
   \<and> tone (fst (saveAvatarProfile g P st)) =
       (if tone_Partial P \<noteq> None then the (tone_Partial P)
        else if avatar st \<noteq> None then tone (the (avatar st)) else Casual)
   \<and> expertiseTags (fst (saveAvatarProfile g P st)) =
       (if expertiseTags_Partial P \<noteq> None then the (expertiseTags_Partial P)
        else if avatar st \<noteq> None then expertiseTags (the (avatar st)) else [])
   \<and> (g \<noteq> [] \<longrightarrow>
        id_AvatarProfile (fst (saveAvatarProfile g' P' (snd (saveAvatarProfile g P st)))) =
        id_AvatarProfile (fst (saveAvatarProfile g P st)))"
proof -
  have st: "avatar (snd (saveAvatarProfile g P st)) = Some (fst (saveAvatarProfile g P st))"
    "memories (snd (saveAvatarProfile g P st)) = memories st"
    by (simp_all add: saveAvatarProfile_def Let_def)
  have i: "id_AvatarProfile (fst (saveAvatarProfile g' P' s)) =
       (if map_option id_AvatarProfile (avatar s) \<notin> {None, Some []}
        then id_AvatarProfile (the (avatar s)) else g')" for g' P' s
    by (cases "avatar s")
      (simp_all add: saveAvatarProfile_def Let_def js_or_value_def truthy_string_def)
  have d: "displayName (fst (saveAvatarProfile g P st)) =
       (if displayName_Partial P \<notin> {None, Some []} then the (displayName_Partial P)
        else if map_option displayName (avatar st) \<notin> {None, Some []}
        then displayName (the (avatar st)) else ''Unnamed Avatar'')"
    by (cases "avatar st"; cases "displayName_Partial P")
      (simp_all add: saveAvatarProfile_def Let_def js_or_value_def js_or_def truthy_string_def)
  have b: "bio (fst (saveAvatarProfile g P st)) =
       (if bio_Partial P \<notin> {None, Some []} then the (bio_Partial P)
        else if avatar st \<noteq> None then bio (the (avatar st)) else [])"
    by (cases "avatar st"; cases "bio_Partial P")
      (simp_all add: saveAvatarProfile_def Let_def js_or_value_def js_or_def truthy_string_def)
  have t: "tone (fst (saveAvatarProfile g P st)) =
       (if tone_Partial P \<noteq> None then the (tone_Partial P)
        else if avatar st \<noteq> None then tone (the (avatar st)) else Casual)"
    by (cases "avatar st"; cases "tone_Partial P")
      (simp_all add: saveAvatarProfile_def Let_def js_or_value_def js_or_def truthy_tone_always)
  have e: "expertiseTags (fst (saveAvatarProfile g P st)) =
       (if expertiseTags_Partial P \<noteq> None then the (expertiseTags_Partial P)
        else if avatar st \<noteq> None then expertiseTags (the (avatar st)) else [])"
    by (cases "avatar st"; cases "expertiseTags_Partial P")
      (simp_all add: saveAvatarProfile_def Let_def js_or_value_def js_or_def truthy_array_def)
  have s: "id_AvatarProfile (fst (saveAvatarProfile g' P' (snd (saveAvatarProfile g P st)))) =
        id_AvatarProfile (fst (saveAvatarProfile g P st))" if "g \<noteq> []"
  proof -
    have "id_AvatarProfile (fst (saveAvatarProfile g P st)) \<noteq> []"
      using that by (simp add: i [of g P st])
    then show ?thesis
      by (simp add: i [of g' P' "snd (saveAvatarProfile g P st)"] st)
  qed
  from st i [of g P st] d b t e s show ?thesis
    by blast
qed

theorem saveAvatarProfile_merge_witness:
  "''id-1'' \<noteq> []
   \<and> fst (saveAvatarProfile ''id-1''
         \<lparr>id_Partial = None, displayName_Partial = Some ''Alex'', bio_Partial = None,
          tone_Partial = None, expertiseTags_Partial = None\<rparr> initialState)
     = \<lparr>id_AvatarProfile = ''id-1'', displayName = ''Alex'', bio = '''', tone = Casual,
        expertiseTags = []\<rparr>
   \<and> fst (saveAvatarProfile ''id-2''
         \<lparr>id_Partial = None, displayName_Partial = None, bio_Partial = None,
          tone_Partial = Some Professional, expertiseTags_Partial = None\<rparr>
         (snd (saveAvatarProfile ''id-1''
           \<lparr>id_Partial = None, displayName_Partial = Some ''Alex'', bio_Partial = None,
            tone_Partial = None, expertiseTags_Partial = None\<rparr> initialState)))
     = \<lparr>id_AvatarProfile = ''id-1'', displayName = ''Alex'', bio = '''', tone = Professional,
        expertiseTags = []\<rparr>"
  using saveAvatarProfile_merge [of "''id-1''"
         "\<lparr>id_Partial = None, displayName_Partial = Some ''Alex'', bio_Partial = None,
          tone_Partial = None, expertiseTags_Partial = None\<rparr>" initialState "''id-2''"
         "\<lparr>id_Partial = None, displayName_Partial = None, bio_Partial = None,
          tone_Partial = Some Professional, expertiseTags_Partial = None\<rparr>"]
  by (simp add: saveAvatarProfile_def Let_def initialState_def js_or_value_def js_or_def
      truthy_string_def truthy_tone_def truthy_array_def)

text \<open>
  An update with \<^verbatim>\<open>expertiseTags: []\<close>, present and empty, does not keep the tags of the
  existing avatar: it replaces them by the empty list.
\<close>

theorem saveAvatarProfile_empty_tags_counterexample:
  "map_option expertiseTags (avatar (snd (saveAvatarProfile ''id-1''
         \<lparr>id_Partial = None, displayName_Partial = Some ''Alex'', bio_Partial = None,
          tone_Partial = None, expertiseTags_Partial = Some [''typescript'']\<rparr> initialState)))
     = Some [''typescript'']
   \<and> expertiseTags (fst (saveAvatarProfile ''id-2''
         \<lparr>id_Partial = None, displayName_Partial = None, bio_Partial = None,
          tone_Partial = None, expertiseTags_Partial = Some []\<rparr>
         (snd (saveAvatarProfile ''id-1''
           \<lparr>id_Partial = None, displayName_Partial = Some ''Alex'', bio_Partial = None,
            tone_Partial = None, expertiseTags_Partial = Some [''typescript'']\<rparr> initialState))))
     = []
   \<and> expertiseTags (fst (saveAvatarProfile ''id-2''
         \<lparr>id_Partial = None, displayName_Partial = None, bio_Partial = None,
          tone_Partial = None, expertiseTags_Partial = Some []\<rparr>
         (snd (saveAvatarProfile ''id-1''
           \<lparr>id_Partial = None, displayName_Partial = Some ''Alex'', bio_Partial = None,
            tone_Partial = None, expertiseTags_Partial = Some [''typescript'']\<rparr> initialState))))
     \<noteq> [''typescript'']"
  by (simp add: saveAvatarProfile_def Let_def initialState_def js_or_value_def js_or_def
      truthy_string_def truthy_tone_def truthy_array_def)

text \<open>
  A stored avatar whose id and name are empty strings (a state the type allows, and
  that only a restored state can hold): the empty strings are falsy, so the id is
  generated anew and the name falls through to the default.
\<close>

lemma saveAvatarProfile_empty_stored_strings:
  "fst (saveAvatarProfile ''id-2''
         \<lparr>id_Partial = None, displayName_Partial = None, bio_Partial = None,
          tone_Partial = None, expertiseTags_Partial = None\<rparr>
         \<lparr>avatar = Some \<lparr>id_AvatarProfile = [], displayName = [], bio = [],
                          tone = Playful, expertiseTags = [''typescript'']\<rparr>,
          memories = []\<rparr>)
     = \<lparr>id_AvatarProfile = ''id-2'', displayName = ''Unnamed Avatar'', bio = [],
        tone = Playful, expertiseTags = [''typescript'']\<rparr>"
  by (simp add: saveAvatarProfile_def Let_def js_or_value_def js_or_def
      truthy_string_def truthy_tone_def truthy_array_def)

subsection \<open>Appending memories\<close>

lemma saveMemory_memories:
  "memories (snd (saveMemory i t ty b st)) =
     drop (length (memories st @ [item_of (i, t, ty, b)]) - 50) (memories st @ [item_of (i, t, ty, b)])"
  using slice_from_neg [of 50 "memories st @ [item_of (i, t, ty, b)]"]
  by (simp add: saveMemory_def Let_def item_of_def)

lemma saveMemory_result:
  "fst (saveMemory i t ty b st) = slice_from (- 5) (memories (snd (saveMemory i t ty b st)))"
  by (simp add: saveMemory_def Let_def)

lemma saveMemory_avatar: "avatar (snd (saveMemory i t ty b st)) = avatar st"
  by (simp add: saveMemory_def Let_def)

lemma drop_last_twice:
  "drop (length (drop (length xs - k) xs @ ys) - k) (drop (length xs - k) xs @ ys) =
     drop (length (xs @ ys) - k) (xs @ ys)"
  by (cases "length xs \<le> k") (auto simp: add.commute)

lemma saveMemory_calls_memories:
  "memories (saveMemory_calls cs st) =
     (if cs = [] then memories st
      else drop (length (memories st @ map item_of cs) - 50) (memories st @ map item_of cs))"
proof (induction cs arbitrary: st)
  case Nil
  show ?case by simp
next
  case (Cons c cs)
  obtain i t ty b where c: "c = (i, t, ty, b)" by (cases c) auto
  let ?st1 = "snd (saveMemory i t ty b st)"
  have m1: "memories ?st1 = drop (length (memories st @ [item_of c]) - 50) (memories st @ [item_of c])"
    by (simp only: saveMemory_memories c)
  show ?case
  proof (cases "cs = []")
    case True
    then show ?thesis using m1 by (simp add: c)
  next
    case False
    have "memories (saveMemory_calls (c # cs) st) = memories (saveMemory_calls cs ?st1)"
      by (simp add: c)
    also have "\<dots> = drop (length (memories ?st1 @ map item_of cs) - 50) (memories ?st1 @ map item_of cs)"
      using Cons.IH [of ?st1] False by simp
    also have "\<dots> = drop (length ((memories st @ [item_of c]) @ map item_of cs) - 50) ((memories st @ [item_of c]) @ map item_of cs)"
      unfolding m1 by (rule drop_last_twice)
    finally show ?thesis by simp
  qed
qed

lemma saveMemory_calls_avatar: "avatar (saveMemory_calls cs st) = avatar st"
  by (induction cs arbitrary: st) (auto simp: saveMemory_avatar)

text \<open>
  Claim C2. After every \<^verbatim>\<open>saveMemory\<close> call, from any prior state, at most 50 items are
  stored, and so after any non-empty sequence of calls. Once 50 or more items have been
  appended the stored sequence is exactly the last 50 appended items in the order of the
  calls; from the initial state it is all the items while there are at most 50 of them
  and the last 50 afterwards. (After 52 appends of \<^verbatim>\<open>m1\<close> .. \<^verbatim>\<open>m52\<close> this is
  \<^verbatim>\<open>m3\<close> .. \<^verbatim>\<open>m52\<close>.)
\<close>

theorem saveMemory_cap_fifo:
  "length (memories (snd (saveMemory i t ty b st))) \<le> 50
   \<and> (cs \<noteq> [] \<longrightarrow> length (memories (saveMemory_calls cs st)) \<le> 50)
   \<and> (50 \<le> length cs \<longrightarrow>
        memories (saveMemory_calls cs st) = drop (length cs - 50) (map item_of cs))
   \<and> memories (saveMemory_calls cs initialState) =
        (if 50 < length cs then drop (length cs - 50) (map item_of cs) else map item_of cs)"
proof -
  have a: "length (memories (snd (saveMemory i t ty b st))) \<le> 50"
    by (simp add: saveMemory_memories)
  have b: "length (memories (saveMemory_calls cs st)) \<le> 50" if "cs \<noteq> []"
    using that by (simp add: saveMemory_calls_memories)
  have c: "memories (saveMemory_calls cs st) = drop (length cs - 50) (map item_of cs)"
    if "50 \<le> length cs"
  proof -
    from that have ne: "cs \<noteq> []" by auto
    have "length (memories st @ map item_of cs) - 50 = length (memories st) + (length cs - 50)"
      using that by simp
    then show ?thesis using ne by (simp add: saveMemory_calls_memories)
  qed
  have d: "memories (saveMemory_calls cs initialState) =
        (if 50 < length cs then drop (length cs - 50) (map item_of cs) else map item_of cs)"
    by (simp add: saveMemory_calls_memories initialState_def)
  show ?thesis using a b c d by blast
qed

theorem saveMemory_cap_fifo_witness:
  "scenario_52_calls \<noteq> []
   \<and> 50 \<le> length scenario_52_calls
   \<and> length (memories (saveMemory_calls scenario_52_calls initialState)) = 50
   \<and> map content (memories (saveMemory_calls scenario_52_calls initialState))
     = [''m3'', ''m4'', ''m5'', ''m6'', ''m7'', ''m8'', ''m9'', ''m10'', ''m11'', ''m12'',
        ''m13'', ''m14'', ''m15'', ''m16'', ''m17'', ''m18'', ''m19'', ''m20'', ''m21'', ''m22'',
        ''m23'', ''m24'', ''m25'', ''m26'', ''m27'', ''m28'', ''m29'', ''m30'', ''m31'', ''m32'',
        ''m33'', ''m34'', ''m35'', ''m36'', ''m37'', ''m38'', ''m39'', ''m40'', ''m41'', ''m42'',
        ''m43'', ''m44'', ''m45'', ''m46'', ''m47'', ''m48'', ''m49'', ''m50'', ''m51'', ''m52'']"
  using saveMemory_cap_fifo [of "''id-0''" "''2025-01-01T00:00:00.000Z''" Note "''m0''"
       initialState scenario_52_calls]
  by (simp add: scenario_52_calls_def item_of_def)

text \<open>
  Claim C3. For every call and every prior state, what \<^verbatim>\<open>saveMemory\<close> returns is the
  last \<open>min 5 n\<close> items of the sequence it has just stored (of length \<open>n\<close>, after the
  cut to 50), in the stored order; it is that many items long, and when more than five
  items are stored it is not the stored sequence. (The 52nd append of the scenario
  returns \<^verbatim>\<open>m48\<close> .. \<^verbatim>\<open>m52\<close>.)
\<close>

theorem saveMemory_returns_last_five:
  "fst (saveMemory i t ty b st) =
     drop (length (memories (snd (saveMemory i t ty b st)))
             - min 5 (length (memories (snd (saveMemory i t ty b st)))))
          (memories (snd (saveMemory i t ty b st)))
   \<and> length (fst (saveMemory i t ty b st)) =
       min 5 (length (memories (snd (saveMemory i t ty b st))))
   \<and> suffix (fst (saveMemory i t ty b st)) (memories (snd (saveMemory i t ty b st)))
   \<and> (5 < length (memories (snd (saveMemory i t ty b st))) \<longrightarrow>
        fst (saveMemory i t ty b st) \<noteq> memories (snd (saveMemory i t ty b st)))"
proof -
  let ?stored = "memories (snd (saveMemory i t ty b st))"
  have r: "fst (saveMemory i t ty b st) = drop (length ?stored - 5) ?stored"
    using slice_from_neg [of 5 ?stored] by (simp add: saveMemory_result)
  have k: "length ?stored - min 5 (length ?stored) = length ?stored - 5"
    by arith
  have l: "length (drop (length ?stored - 5) ?stored) = min 5 (length ?stored)"
    by simp
  have n: "drop (length ?stored - 5) ?stored \<noteq> ?stored" if "5 < length ?stored"
  proof
    assume "drop (length ?stored - 5) ?stored = ?stored"
    then have "length (drop (length ?stored - 5) ?stored) = length ?stored" by simp
    with l that show False by simp
  qed
  show ?thesis
    unfolding r k using l n by (simp add: suffix_drop)
qed


theorem saveMemory_returns_last_five_witness:
  "5 < length (memories (snd (saveMemory ''id-52'' ''2025-01-01T00:00:00.000Z'' Note ''m52''
           (saveMemory_calls (butlast scenario_52_calls) initialState))))
   \<and> map content (fst (saveMemory ''id-52'' ''2025-01-01T00:00:00.000Z'' Note ''m52''
           (saveMemory_calls (butlast scenario_52_calls) initialState)))
       = [''m48'', ''m49'', ''m50'', ''m51'', ''m52'']
   \<and> fst (saveMemory ''id-52'' ''2025-01-01T00:00:00.000Z'' Note ''m52''
           (saveMemory_calls (butlast scenario_52_calls) initialState))
       \<noteq> memories (snd (saveMemory ''id-52'' ''2025-01-01T00:00:00.000Z'' Note ''m52''
           (saveMemory_calls (butlast scenario_52_calls) initialState)))"
proof -
  let ?st = "saveMemory_calls (butlast scenario_52_calls) initialState"
  let ?r = "saveMemory ''id-52'' ''2025-01-01T00:00:00.000Z'' Note ''m52'' ?st"
  let ?new = "item_of (''id-52'', ''2025-01-01T00:00:00.000Z'', Note, ''m52'')"
  have len: "length (butlast scenario_52_calls) = 51"
    by (simp add: scenario_52_calls_def)
  have ne: "butlast scenario_52_calls \<noteq> []"
  proof
    assume e: "butlast scenario_52_calls = []"
    show False using len unfolding e by simp
  qed
  have prior: "memories ?st = drop 1 (map item_of (butlast scenario_52_calls))"
    using ne len by (simp add: saveMemory_calls_memories initialState_def)
  have stored: "memories (snd ?r) = drop 2 (map item_of (butlast scenario_52_calls)) @ [?new]"
    unfolding saveMemory_memories prior using len by (simp add: numeral_2_eq_2)
  then have stored_len: "length (memories (snd ?r)) = 50"
    using len by simp
  have "map content (drop 45 (drop 2 (map item_of (butlast scenario_52_calls)) @ [?new]))
      = [''m48'', ''m49'', ''m50'', ''m51'', ''m52'']"
    by (simp add: scenario_52_calls_def item_of_def)
  then have returned: "map content (drop 45 (memories (snd ?r)))
      = [''m48'', ''m49'', ''m50'', ''m51'', ''m52'']"
    by (simp only: stored)
  note T = saveMemory_returns_last_five
         [of "''id-52''" "''2025-01-01T00:00:00.000Z''" Note "''m52''" ?st]
  have more: "5 < length (memories (snd ?r))"
    by (simp add: stored_len)
  from T have "fst ?r = drop (length (memories (snd ?r)) - min 5 (length (memories (snd ?r))))
      (memories (snd ?r))"
    by (rule conjunct1)
  then have f1: "fst ?r = drop 45 (memories (snd ?r))"
    by (simp add: stored_len)
  from T more have f2: "fst ?r \<noteq> memories (snd ?r)"
    by blast
  from returned have "map content (fst ?r) = [''m48'', ''m49'', ''m50'', ''m51'', ''m52'']"
    by (simp only: f1)
  with more f2 show ?thesis
    by blast
qed

subsection \<open>Snapshot\<close>

text \<open>
  Claim C6. For every stored state, \<^verbatim>\<open>getAvatarState\<close> returns the stored avatar as it
  is (absent when the state has none) together with a memory list of at most five items
  that is a suffix of the stored sequence, in the stored order: its last
  \<open>min 5 (length (memories st))\<close> items. On the initial state it returns no avatar and
  the empty memory list.
\<close>

theorem getAvatarState_snapshot:
  "avatar (getAvatarState st) = avatar st
   \<and> length (memories (getAvatarState st)) \<le> 5
   \<and> length (memories (getAvatarState st)) = min 5 (length (memories st))
   \<and> suffix (memories (getAvatarState st)) (memories st)
   \<and> memories (getAvatarState st) = drop (length (memories st) - 5) (memories st)
   \<and> getAvatarState initialState = \<lparr>avatar = None, memories = []\<rparr>"
proof -
  have s: "slice_from (- 5) (memories st) = drop (length (memories st) - 5) (memories st)"
    using slice_from_neg [of 5 "memories st"] by simp
  have e: "slice_from (- 5) ([] :: MemoryItem list) = []"
    by (simp add: slice_from_def)
  have l: "length (memories st) - (length (memories st) - 5) = min 5 (length (memories st))"
    by arith
  show ?thesis
    by (simp add: getAvatarState_def s e l initialState_def suffix_drop)
qed

theorem getAvatarState_snapshot_witness:
  "map content (memories (getAvatarState (saveMemory_calls (take 7 scenario_52_calls)
       (snd (saveAvatarProfile ''id-0''
          \<lparr>id_Partial = None, displayName_Partial = Some ''Alex'', bio_Partial = None,
           tone_Partial = None, expertiseTags_Partial = None\<rparr> initialState)))))
     = [''m3'', ''m4'', ''m5'', ''m6'', ''m7'']
   \<and> map_option displayName (avatar (getAvatarState (saveMemory_calls (take 7 scenario_52_calls)
       (snd (saveAvatarProfile ''id-0''
          \<lparr>id_Partial = None, displayName_Partial = Some ''Alex'', bio_Partial = None,
           tone_Partial = None, expertiseTags_Partial = None\<rparr> initialState)))))
     = Some ''Alex''"
proof -
  let ?st = "saveMemory_calls (take 7 scenario_52_calls)
       (snd (saveAvatarProfile ''id-0''
          \<lparr>id_Partial = None, displayName_Partial = Some ''Alex'', bio_Partial = None,
           tone_Partial = None, expertiseTags_Partial = None\<rparr> initialState))"
  have len: "length (take 7 scenario_52_calls) = 7"
    by (simp add: scenario_52_calls_def)
  have ne: "take 7 scenario_52_calls \<noteq> []"
  proof
    assume e: "take 7 scenario_52_calls = []"
    show False using len unfolding e by simp
  qed
  have m: "memories ?st = map item_of (take 7 scenario_52_calls)"
    using ne len
    by (simp add: saveMemory_calls_memories saveAvatarProfile_def Let_def initialState_def)
  have a: "avatar ?st = avatar (snd (saveAvatarProfile ''id-0''
          \<lparr>id_Partial = None, displayName_Partial = Some ''Alex'', bio_Partial = None,
           tone_Partial = None, expertiseTags_Partial = None\<rparr> initialState))"
    by (rule saveMemory_calls_avatar)
  have d: "map_option displayName (avatar ?st) = Some ''Alex''"
    unfolding a
    by (simp add: saveAvatarProfile_def Let_def initialState_def js_or_value_def js_or_def
        truthy_string_def)
  note T = getAvatarState_snapshot [of ?st]
  from T have "memories (getAvatarState ?st) = drop (length (memories ?st) - 5) (memories ?st)"
    by blast
  then have "map content (memories (getAvatarState ?st))
      = map content (drop 2 (map item_of (take 7 scenario_52_calls)))"
    unfolding m using len by simp
  also have "\<dots> = [''m3'', ''m4'', ''m5'', ''m6'', ''m7'']"
    by (simp add: scenario_52_calls_def item_of_def)
  finally have c: "map content (memories (getAvatarState ?st))
      = [''m3'', ''m4'', ''m5'', ''m6'', ''m7'']" .
  from T have "avatar (getAvatarState ?st) = avatar ?st"
    by blast
  with d have "map_option displayName (avatar (getAvatarState ?st)) = Some ''Alex''"
    by simp
  with c show ?thesis by blast
qed

subsection \<open>The saveMemory tool\<close>

lemma memory_type_enum_type_string: "memory_type_enum (type_string ty) = Some ty"
  by (cases ty) (simp_all add: memory_type_enum_def)

lemma memory_type_enum_Some_iff: "(memory_type_enum t = Some ty) = (t = type_string ty)"
  by (cases ty) (auto simp add: memory_type_enum_def split: if_splits)

lemma saveMemory_inputSchema_Some_iff:
  "(saveMemory_inputSchema input = Some (ty, c)) =
   (\<exists>fs. input = JObj fs \<and> map_of fs ''type'' = Some (JStr (type_string ty))
         \<and> map_of fs ''content'' = Some (JStr c))"
proof (cases input)
  case (JObj fs)
  show ?thesis
  proof (cases "map_of fs ''type''")
    case None
    with JObj show ?thesis by (simp add: saveMemory_inputSchema_def)
  next
    case (Some v)
    show ?thesis
    proof (cases "\<exists>t. v = JStr t")
      case False
      with JObj Some show ?thesis
        by (cases v) (simp_all add: saveMemory_inputSchema_def)
    next
      case True
      then obtain t where v: "v = JStr t" by blast
      show ?thesis
      proof (cases "memory_type_enum t")
        case None
        then have "t \<noteq> type_string ty"
          using memory_type_enum_Some_iff [of t ty] by simp
        with JObj Some v None show ?thesis
          by (simp add: saveMemory_inputSchema_def)
      next
        case enum: (Some ty')
        then have t: "t = type_string ty'"
          by (simp add: memory_type_enum_Some_iff)
        have inj: "(type_string ty' = type_string ty) = (ty' = ty)"
          by (cases ty'; cases ty) simp_all
        show ?thesis
        proof (cases "map_of fs ''content''")
          case None
          with JObj Some v enum show ?thesis
            by (simp add: saveMemory_inputSchema_def)
        next
          case cont: (Some w)
          with JObj Some v enum t inj show ?thesis
            by (cases w) (auto simp add: saveMemory_inputSchema_def)
        qed
      qed
    qed
  qed
qed (simp_all add: saveMemory_inputSchema_def)

lemma saveMemory_inputSchema_None_iff:
  "(saveMemory_inputSchema input = None) =
   (\<not> (\<exists>fs ty c. input = JObj fs \<and> map_of fs ''type'' = Some (JStr (type_string ty))
         \<and> map_of fs ''content'' = Some (JStr c)))"
proof -
  have "(saveMemory_inputSchema input = None) = (\<forall>ty c. saveMemory_inputSchema input \<noteq> Some (ty, c))"
    by (cases "saveMemory_inputSchema input") auto
  then show ?thesis
    by (simp only: saveMemory_inputSchema_Some_iff) blast
qed

text \<open>
  Claim C4, as amended. A call of the \<^verbatim>\<open>saveMemory\<close> tool whose \<^verbatim>\<open>type\<close> is one of the
  three type strings and whose \<^verbatim>\<open>content\<close> is a string is accepted whatever the string
  is, the empty one too: with an agent available the call succeeds and the stored
  sequence ends with a new item of exactly that content; without an agent the tool
  answers with an error and stores nothing. These are the only arguments the boundary
  lets through: the call is refused exactly when the arguments are not an object with
  such a \<^verbatim>\<open>type\<close> and such a \<^verbatim>\<open>content\<close>, and a refused call leaves the state as it was.
  So arguments that are no object, a \<^verbatim>\<open>type\<close> that is absent, not a string or outside the
  three type strings, and a \<^verbatim>\<open>content\<close> that is absent or not a string are all refused
  before \<^verbatim>\<open>execute\<close> runs.
\<close>

theorem saveMemory_tool_blank_content:
  "(map_of fs ''type'' = Some (JStr (type_string ty)) \<and> map_of fs ''content'' = Some (JStr c) \<longrightarrow>
      saveMemory_tool g now (JObj fs) (Some st) =
        (Some (ToolSuccess
                 (''Memory stored successfully! I'll remember: '' @ [CHR 0x22] @ c @ [CHR 0x22])
                 (fst (saveMemory g now ty c st))),
         Some (snd (saveMemory g now ty c st)))
      \<and> memories (snd (saveMemory g now ty c st)) \<noteq> []
      \<and> last (memories (snd (saveMemory g now ty c st))) =
          \<lparr>id_MemoryItem = g, createdAt = now, type_MemoryItem = ty, content = c\<rparr>
      \<and> saveMemory_tool g now (JObj fs) None =
          (Some (ToolError ''Agent not available''), None))
   \<and> (fst (saveMemory_tool g now input agent) = None) =
       (\<not> (\<exists>fs' ty' c'. input = JObj fs'
              \<and> map_of fs' ''type'' = Some (JStr (type_string ty'))
              \<and> map_of fs' ''content'' = Some (JStr c')))
   \<and> (fst (saveMemory_tool g now input agent) = None \<longrightarrow>
        saveMemory_tool g now input agent = (None, agent))
   \<and> (\<not> is_plain_object input \<longrightarrow> saveMemory_tool g now input agent = (None, agent))
   \<and> ((\<forall>t. map_of fs ''type'' \<noteq> Some (JStr t)) \<longrightarrow>
        saveMemory_tool g now (JObj fs) agent = (None, agent))
   \<and> (map_of fs ''type'' = Some (JStr t) \<and> t \<notin> {''task'', ''preference'', ''note''} \<longrightarrow>
        saveMemory_tool g now (JObj fs) agent = (None, agent))
   \<and> ((\<forall>c'. map_of fs ''content'' \<noteq> Some (JStr c')) \<longrightarrow>
        saveMemory_tool g now (JObj fs) agent = (None, agent))"
proof -
  have stored: "memories (snd (saveMemory g now ty c st)) \<noteq> []
      \<and> last (memories (snd (saveMemory g now ty c st))) =
          \<lparr>id_MemoryItem = g, createdAt = now, type_MemoryItem = ty, content = c\<rparr>"
  proof -
    let ?xs = "memories st @ [item_of (g, now, ty, c)]"
    have k: "length ?xs - 50 < length ?xs" by simp
    have m: "memories (snd (saveMemory g now ty c st)) = drop (length ?xs - 50) ?xs"
      by (rule saveMemory_memories)
    have "drop n ys \<noteq> []" if "n < length ys" for n and ys :: "MemoryItem list"
      using that by simp
    from this [OF k] have ne: "drop (length ?xs - 50) ?xs \<noteq> []" .
    have "last (drop (length ?xs - 50) ?xs) = last ?xs"
      using k by (rule last_drop)
    then show ?thesis
      using ne unfolding m by (simp add: item_of_def)
  qed
  have acc: "saveMemory_tool g now (JObj fs) (Some st) =
        (Some (ToolSuccess
                 (''Memory stored successfully! I'll remember: '' @ [CHR 0x22] @ c @ [CHR 0x22])
                 (fst (saveMemory g now ty c st))),
         Some (snd (saveMemory g now ty c st)))"
    if "map_of fs ''type'' = Some (JStr (type_string ty))" "map_of fs ''content'' = Some (JStr c)"
    using that
    by (simp add: saveMemory_tool_def saveMemory_inputSchema_def memory_type_enum_type_string
        saveMemory_execute_def Let_def)
  have noagent: "saveMemory_tool g now (JObj fs) None =
          (Some (ToolError ''Agent not available''), None)"
    if "map_of fs ''type'' = Some (JStr (type_string ty))" "map_of fs ''content'' = Some (JStr c)"
    using that
    by (simp add: saveMemory_tool_def saveMemory_inputSchema_def memory_type_enum_type_string
        saveMemory_execute_def Let_def)
  have fst_None: "(fst (saveMemory_tool g now input agent) = None) =
      (saveMemory_inputSchema input = None)" for input
    by (cases "saveMemory_inputSchema input") (auto simp add: saveMemory_tool_def Let_def)
  have rej: "saveMemory_tool g now input agent = (None, agent)"
    if "saveMemory_inputSchema input = None" for input
    using that by (simp add: saveMemory_tool_def)
  have shape: "(fst (saveMemory_tool g now input agent) = None) =
       (\<not> (\<exists>fs' ty' c'. input = JObj fs'
              \<and> map_of fs' ''type'' = Some (JStr (type_string ty'))
              \<and> map_of fs' ''content'' = Some (JStr c')))"
    by (simp only: fst_None saveMemory_inputSchema_None_iff)
  have refused: "saveMemory_tool g now input agent = (None, agent)"
    if "fst (saveMemory_tool g now input agent) = None"
    using that rej by (simp only: fst_None)
  have notobj: "saveMemory_tool g now input agent = (None, agent)"
    if "\<not> is_plain_object input"
  proof -
    from that have "\<And>gs. input \<noteq> JObj gs" by auto
    then show ?thesis by (intro rej) (simp add: saveMemory_inputSchema_None_iff)
  qed
  have notype: "saveMemory_tool g now (JObj fs) agent = (None, agent)"
    if "\<forall>t. map_of fs ''type'' \<noteq> Some (JStr t)"
    using that by (intro rej) (simp add: saveMemory_inputSchema_None_iff)
  have badtype: "saveMemory_tool g now (JObj fs) agent = (None, agent)"
    if "map_of fs ''type'' = Some (JStr t)" "t \<notin> {''task'', ''preference'', ''note''}"
  proof -
    from that(2) have "t \<noteq> type_string ty'" for ty'
      by (cases ty') auto
    with that(1) show ?thesis
      by (intro rej) (simp add: saveMemory_inputSchema_None_iff)
  qed
  have nocontent: "saveMemory_tool g now (JObj fs) agent = (None, agent)"
    if "\<forall>c'. map_of fs ''content'' \<noteq> Some (JStr c')"
    using that by (intro rej) (simp add: saveMemory_inputSchema_None_iff)
  from stored acc noagent shape refused notobj notype badtype nocontent show ?thesis
    by blast
qed

theorem saveMemory_tool_blank_content_witness:
  "map_of [(''content'', JStr []), (''type'', JStr ''task'')] ''type''
     = Some (JStr (type_string Task))
   \<and> map_of [(''content'', JStr []), (''type'', JStr ''task'')] ''content'' = Some (JStr [])
   \<and> snd (saveMemory_tool ''id-1'' ''2025-01-01T00:00:00.000Z''
         (JObj [(''content'', JStr []), (''type'', JStr ''task'')]) (Some initialState))
     = Some \<lparr>avatar = None,
              memories = [\<lparr>id_MemoryItem = ''id-1'', createdAt = ''2025-01-01T00:00:00.000Z'',
                           type_MemoryItem = Task, content = []\<rparr>]\<rparr>
   \<and> saveMemory_tool ''id-1'' ''2025-01-01T00:00:00.000Z''
         (JObj [(''content'', JStr []), (''type'', JStr ''task'')]) None
     = (Some (ToolError ''Agent not available''), None)
   \<and> \<not> is_plain_object (JStr ''note'')
   \<and> saveMemory_tool ''id-1'' ''2025-01-01T00:00:00.000Z'' (JStr ''note'') (Some initialState)
     = (None, Some initialState)
   \<and> saveMemory_tool ''id-1'' ''2025-01-01T00:00:00.000Z''
         (JObj [(''content'', JStr ''buy milk'')]) (Some initialState)
     = (None, Some initialState)
   \<and> ''reminder'' \<notin> {''task'', ''preference'', ''note''}
   \<and> saveMemory_tool ''id-1'' ''2025-01-01T00:00:00.000Z''
         (JObj [(''type'', JStr ''reminder''), (''content'', JStr ''buy milk'')]) (Some initialState)
     = (None, Some initialState)
   \<and> saveMemory_tool ''id-1'' ''2025-01-01T00:00:00.000Z''
         (JObj [(''type'', JStr ''note'')]) (Some initialState)
     = (None, Some initialState)
   \<and> saveMemory_tool ''id-1'' ''2025-01-01T00:00:00.000Z''
         (JObj [(''type'', JStr ''note''), (''content'', JNum 5)]) (Some initialState)
     = (None, Some initialState)"
proof -
  note accepted = saveMemory_tool_blank_content
      [where fs = "[(''content'', JStr []), (''type'', JStr ''task'')]" and ty = Task and c = "[]"
         and g = "''id-1''" and now = "''2025-01-01T00:00:00.000Z''" and st = initialState
         and input = "JStr ''note''" and agent = "Some initialState" and t = "''task''"]
  note no_type = saveMemory_tool_blank_content
      [where fs = "[(''content'', JStr ''buy milk'')]" and ty = Task and c = "[]"
         and g = "''id-1''" and now = "''2025-01-01T00:00:00.000Z''" and st = initialState
         and input = "JStr ''note''" and agent = "Some initialState" and t = "''task''"]
  note bad_type = saveMemory_tool_blank_content
      [where fs = "[(''type'', JStr ''reminder''), (''content'', JStr ''buy milk'')]"
         and ty = Task and c = "[]"
         and g = "''id-1''" and now = "''2025-01-01T00:00:00.000Z''" and st = initialState
         and input = "JStr ''note''" and agent = "Some initialState" and t = "''reminder''"]
  note no_content = saveMemory_tool_blank_content
      [where fs = "[(''type'', JStr ''note'')]" and ty = Task and c = "[]"
         and g = "''id-1''" and now = "''2025-01-01T00:00:00.000Z''" and st = initialState
         and input = "JStr ''note''" and agent = "Some initialState" and t = "''task''"]
  note bad_content = saveMemory_tool_blank_content
      [where fs = "[(''type'', JStr ''note''), (''content'', JNum 5)]" and ty = Task and c = "[]"
         and g = "''id-1''" and now = "''2025-01-01T00:00:00.000Z''" and st = initialState
         and input = "JStr ''note''" and agent = "Some initialState" and t = "''task''"]
  have h1: "map_of [(''content'', JStr []), (''type'', JStr ''task'')] ''type''
       = Some (JStr (type_string Task))
     \<and> map_of [(''content'', JStr []), (''type'', JStr ''task'')] ''content'' = Some (JStr [])"
    by simp
  have h2: "\<not> is_plain_object (JStr ''note'')"
    by simp
  have h3: "\<forall>t. map_of [(''content'', JStr ''buy milk'')] ''type'' \<noteq> Some (JStr t)"
    by simp
  have h4: "map_of [(''type'', JStr ''reminder''), (''content'', JStr ''buy milk'')] ''type''
       = Some (JStr ''reminder'') \<and> ''reminder'' \<notin> {''task'', ''preference'', ''note''}"
    by simp
  have h5: "\<forall>c'. map_of [(''type'', JStr ''note'')] ''content'' \<noteq> Some (JStr c')"
    by simp
  have h6: "\<forall>c'. map_of [(''type'', JStr ''note''), (''content'', JNum 5)] ''content''
       \<noteq> Some (JStr c')"
    by simp
  have stored: "snd (saveMemory ''id-1'' ''2025-01-01T00:00:00.000Z'' Task [] initialState)
     = \<lparr>avatar = None,
        memories = [\<lparr>id_MemoryItem = ''id-1'', createdAt = ''2025-01-01T00:00:00.000Z'',
                     type_MemoryItem = Task, content = []\<rparr>]\<rparr>"
    by (simp add: saveMemory_def slice_from_def Let_def initialState_def)
  from accepted h1 have a: "snd (saveMemory_tool ''id-1'' ''2025-01-01T00:00:00.000Z''
         (JObj [(''content'', JStr []), (''type'', JStr ''task'')]) (Some initialState))
     = Some (snd (saveMemory ''id-1'' ''2025-01-01T00:00:00.000Z'' Task [] initialState))"
    by simp
  from accepted h1 have b: "saveMemory_tool ''id-1'' ''2025-01-01T00:00:00.000Z''
         (JObj [(''content'', JStr []), (''type'', JStr ''task'')]) None
     = (Some (ToolError ''Agent not available''), None)"
    by blast
  from accepted h2 have c: "saveMemory_tool ''id-1'' ''2025-01-01T00:00:00.000Z'' (JStr ''note'')
         (Some initialState) = (None, Some initialState)"
    by blast
  from no_type h3 have d: "saveMemory_tool ''id-1'' ''2025-01-01T00:00:00.000Z''
         (JObj [(''content'', JStr ''buy milk'')]) (Some initialState)
     = (None, Some initialState)"
    by blast
  from bad_type h4 have e: "saveMemory_tool ''id-1'' ''2025-01-01T00:00:00.000Z''
         (JObj [(''type'', JStr ''reminder''), (''content'', JStr ''buy milk'')]) (Some initialState)
     = (None, Some initialState)"
    by blast
  from no_content h5 have f: "saveMemory_tool ''id-1'' ''2025-01-01T00:00:00.000Z''
         (JObj [(''type'', JStr ''note'')]) (Some initialState)
     = (None, Some initialState)"
    by blast
  from bad_content h6 have g: "saveMemory_tool ''id-1'' ''2025-01-01T00:00:00.000Z''
         (JObj [(''type'', JStr ''note''), (''content'', JNum 5)]) (Some initialState)
     = (None, Some initialState)"
    by blast
  from h1 h2 h4 a [unfolded stored] b c d e f g show ?thesis
    by blast
qed

text \<open>
  A call with the empty string as content, on the initial state: it is not refused, and
  the state, empty before, holds an item with empty content afterwards.
\<close>

theorem saveMemory_tool_blank_content_counterexample:
  "saveMemory_tool ''id-1'' ''2025-01-01T00:00:00.000Z''
       (JObj [(''type'', JStr ''note''), (''content'', JStr [])]) (Some initialState)
     = (Some (ToolSuccess
                (''Memory stored successfully! I'll remember: '' @ [CHR 0x22] @ [CHR 0x22])
                [\<lparr>id_MemoryItem = ''id-1'', createdAt = ''2025-01-01T00:00:00.000Z'',
                  type_MemoryItem = Note, content = []\<rparr>]),
        Some \<lparr>avatar = None,
              memories = [\<lparr>id_MemoryItem = ''id-1'', createdAt = ''2025-01-01T00:00:00.000Z'',
                           type_MemoryItem = Note, content = []\<rparr>]\<rparr>)
   \<and> memories initialState = []"
  by (simp add: saveMemory_tool_def saveMemory_inputSchema_def memory_type_enum_def
      saveMemory_execute_def saveMemory_def slice_from_def Let_def initialState_def)

subsection \<open>The rendered context and the system prompt\<close>

lemma append_memory_lines_concat:
  "append_memory_lines f ms ctx =
     ctx @ concat (map (\<lambda>m. ''- ['' @ type_string (type_MemoryItem m) @ ''] '' @ content m
        @ '' ('' @ f (createdAt m) @ '')'' @ nl) ms)"
  by (induction ms arbitrary: ctx) simp_all

text \<open>
  Claim C7. For every state, and whatever the host's date rendering \<open>f\<close> is, the context
  is the heading, the avatar block, the memories heading and the memory block. The
  avatar block is the line that says no profile is set when there is no avatar, and
  otherwise the name, the bio or \<^verbatim>\<open>Not set\<close> when it is empty, the tone, and the tags
  joined by a comma and a space or \<^verbatim>\<open>None specified\<close> when there are none. The memory
  block is the line that says no memories are stored when the stored sequence is empty,
  and otherwise one line for each of the last three stored items (all of them when
  fewer are stored, never five), in order, with the type tag, the content and \<open>f\<close> of
  \<open>createdAt\<close>.
\<close>

theorem buildContextString_render:
  "buildContextString f st =
     ''## Current Avatar State'' @ nl
     @ (case avatar st of
          None \<Rightarrow> ''- No avatar profile set yet. The user can create one.'' @ nl
        | Some a \<Rightarrow>
            ''- Name: '' @ displayName a @ nl
            @ ''- Bio: '' @ (if bio a = [] then ''Not set'' else bio a) @ nl
            @ ''- Tone: '' @ tone_string (tone a) @ nl
            @ ''- Expertise: ''
            @ (if expertiseTags a = [] then ''None specified'' else join '', '' (expertiseTags a))
            @ nl)
     @ nl @ ''## Recent Memories'' @ nl
     @ (if memories st = [] then ''- No memories stored yet.'' @ nl
        else concat (map (\<lambda>m. ''- ['' @ type_string (type_MemoryItem m) @ ''] '' @ content m
                            @ '' ('' @ f (createdAt m) @ '')'' @ nl)
                      (drop (length (memories st) - 3) (memories st))))
   \<and> length (drop (length (memories st) - 3) (memories st)) = min 3 (length (memories st))"
proof -
  have s: "slice_from (- 3) (memories st) = drop (length (memories st) - 3) (memories st)"
    using slice_from_neg [of 3 "memories st"] by simp
  have e: "(0 < length (drop (length (memories st) - 3) (memories st))) = (memories st \<noteq> [])"
    by (cases "memories st") auto
  have l: "length (drop (length (memories st) - 3) (memories st)) = min 3 (length (memories st))"
    by simp
  have b: "buildContextString f st = ''## Current Avatar State'' @ nl
     @ (case avatar st of
          None \<Rightarrow> ''- No avatar profile set yet. The user can create one.'' @ nl
        | Some a \<Rightarrow>
            ''- Name: '' @ displayName a @ nl
            @ ''- Bio: '' @ (if bio a = [] then ''Not set'' else bio a) @ nl
            @ ''- Tone: '' @ tone_string (tone a) @ nl
            @ ''- Expertise: ''
            @ (if expertiseTags a = [] then ''None specified'' else join '', '' (expertiseTags a))
            @ nl)
     @ nl @ ''## Recent Memories'' @ nl
     @ (if memories st = [] then ''- No memories stored yet.'' @ nl
        else concat (map (\<lambda>m. ''- ['' @ type_string (type_MemoryItem m) @ ''] '' @ content m
                            @ '' ('' @ f (createdAt m) @ '')'' @ nl)
                      (drop (length (memories st) - 3) (memories st))))"
    unfolding buildContextString_def Let_def s e append_memory_lines_concat
    by (cases "avatar st") (simp_all add: js_or_value_def truthy_string_def)
  from b l show ?thesis by (rule conjI)
qed

theorem buildContextString_render_witness:
  "buildContextString (take 10)
     \<lparr>avatar = Some \<lparr>id_AvatarProfile = ''id-1'', displayName = ''Alex'', bio = [],
                      tone = Professional, expertiseTags = [''typescript'', ''workers'']\<rparr>,
      memories =
        [\<lparr>id_MemoryItem = ''a'', createdAt = ''2025-01-01T09:00:00.000Z'',
          type_MemoryItem = Note, content = ''m1''\<rparr>,
         \<lparr>id_MemoryItem = ''b'', createdAt = ''2025-01-02T09:00:00.000Z'',
          type_MemoryItem = Task, content = ''m2''\<rparr>,
         \<lparr>id_MemoryItem = ''c'', createdAt = ''2025-01-03T09:00:00.000Z'',
          type_MemoryItem = Preference, content = ''m3''\<rparr>,
         \<lparr>id_MemoryItem = ''d'', createdAt = ''2025-01-04T09:00:00.000Z'',
          type_MemoryItem = Note, content = ''m4''\<rparr>]\<rparr>
   = ''## Current Avatar State'' @ nl
     @ ''- Name: Alex'' @ nl
     @ ''- Bio: Not set'' @ nl
     @ ''- Tone: professional'' @ nl
     @ ''- Expertise: typescript, workers'' @ nl
     @ nl @ ''## Recent Memories'' @ nl
     @ ''- [task] m2 (2025-01-02)'' @ nl
     @ ''- [preference] m3 (2025-01-03)'' @ nl
     @ ''- [note] m4 (2025-01-04)'' @ nl
   \<and> buildContextString (take 10) initialState
   = ''## Current Avatar State'' @ nl
     @ ''- No avatar profile set yet. The user can create one.'' @ nl
     @ nl @ ''## Recent Memories'' @ nl
     @ ''- No memories stored yet.'' @ nl"
  using buildContextString_render [of "take 10"
     "\<lparr>avatar = Some \<lparr>id_AvatarProfile = ''id-1'', displayName = ''Alex'', bio = [],
                      tone = Professional, expertiseTags = [''typescript'', ''workers'']\<rparr>,
      memories =
        [\<lparr>id_MemoryItem = ''a'', createdAt = ''2025-01-01T09:00:00.000Z'',
          type_MemoryItem = Note, content = ''m1''\<rparr>,
         \<lparr>id_MemoryItem = ''b'', createdAt = ''2025-01-02T09:00:00.000Z'',
          type_MemoryItem = Task, content = ''m2''\<rparr>,
         \<lparr>id_MemoryItem = ''c'', createdAt = ''2025-01-03T09:00:00.000Z'',
          type_MemoryItem = Preference, content = ''m3''\<rparr>,
         \<lparr>id_MemoryItem = ''d'', createdAt = ''2025-01-04T09:00:00.000Z'',
          type_MemoryItem = Note, content = ''m4''\<rparr>]\<rparr>"]
    buildContextString_render [of "take 10" initialState]
  by (simp add: initialState_def)

lemma tone_string_truthy: "truthy_string (tone_string t)"
  by (cases t) (simp_all add: truthy_string_def)

text \<open>
  Claim C8. For every state the system prompt is the fixed opening, the tone string,
  the behavioural instruction of that tone, the fixed middle part, the schedule prompt
  and, last and apart from the instruction, the context of \<^verbatim>\<open>buildContextString\<close>. The
  tone is the avatar's, and \<open>Casual\<close> when there is no avatar; the table of instructions
  has one entry for each of the four tones, so the lookup never misses, and its four
  strings differ from one another.
\<close>

theorem getSystemPrompt_tone_instruction:
  "getSystemPrompt sp f now st =
     prompt_before_tone
     @ tone_string (case avatar st of None \<Rightarrow> Casual | Some a \<Rightarrow> tone a)
     @ '') in ALL responses: ''
     @ (case (case avatar st of None \<Rightarrow> Casual | Some a \<Rightarrow> tone a) of
          Casual \<Rightarrow> ''Be friendly, relaxed, and approachable. Use conversational language.''
        | Professional \<Rightarrow>
            ''Be formal, precise, and business-like. Maintain a professional demeanor.''
        | Playful \<Rightarrow> ''Be fun, energetic, and use humor when appropriate. Keep things light.''
        | Technical \<Rightarrow>
            ''Be detailed, accurate, and use technical terminology. Focus on precision.'')
     @ prompt_after_tone @ sp now @ nl @ nl @ buildContextString f st
   \<and> map fst toneInstructions = map tone_string [Casual, Professional, Playful, Technical]
   \<and> distinct (map snd toneInstructions)"
proof -
  let ?t = "case avatar st of None \<Rightarrow> Casual | Some a \<Rightarrow> tone a"
  have t: "js_or_value truthy_string (map_option (\<lambda>a. tone_string (tone a)) (avatar st)) ''casual''
      = tone_string ?t"
    by (cases "avatar st") (simp_all add: js_or_value_def tone_string_truthy)
  have i: "template_value (map_of toneInstructions (tone_string u)) =
      (case u of
          Casual \<Rightarrow> ''Be friendly, relaxed, and approachable. Use conversational language.''
        | Professional \<Rightarrow>
            ''Be formal, precise, and business-like. Maintain a professional demeanor.''
        | Playful \<Rightarrow> ''Be fun, energetic, and use humor when appropriate. Keep things light.''
        | Technical \<Rightarrow>
            ''Be detailed, accurate, and use technical terminology. Focus on precision.'')" for u
    by (cases u) (simp_all add: template_value_def toneInstructions_def)
  have p: "getSystemPrompt sp f now st =
     prompt_before_tone @ tone_string ?t @ '') in ALL responses: ''
     @ template_value (map_of toneInstructions (tone_string ?t))
     @ prompt_after_tone @ sp now @ nl @ nl @ buildContextString f st"
    by (simp only: getSystemPrompt_def Let_def t)
  have k: "map fst toneInstructions = map tone_string [Casual, Professional, Playful, Technical]"
    by (simp add: toneInstructions_def)
  have d: "distinct (map snd toneInstructions)"
    by (simp add: toneInstructions_def)
  from p k d show ?thesis
    by (simp only: i)
qed

theorem getSystemPrompt_tone_instruction_witness:
  "getSystemPrompt (append ''The current date is '') (take 10) ''2025-01-05''
     \<lparr>avatar = Some \<lparr>id_AvatarProfile = ''id-1'', displayName = ''Alex'', bio = [],
                      tone = Playful, expertiseTags = []\<rparr>,
      memories = []\<rparr>
   = prompt_before_tone
     @ ''playful) in ALL responses: Be fun, energetic, and use humor when appropriate. Keep things light.''
     @ prompt_after_tone @ ''The current date is 2025-01-05'' @ nl @ nl
     @ buildContextString (take 10)
         \<lparr>avatar = Some \<lparr>id_AvatarProfile = ''id-1'', displayName = ''Alex'', bio = [],
                          tone = Playful, expertiseTags = []\<rparr>,
          memories = []\<rparr>
   \<and> getSystemPrompt (append ''The current date is '') (take 10) ''2025-01-05'' initialState
   = prompt_before_tone
     @ ''casual) in ALL responses: Be friendly, relaxed, and approachable. Use conversational language.''
     @ prompt_after_tone @ ''The current date is 2025-01-05'' @ nl @ nl
     @ buildContextString (take 10) initialState"
  using getSystemPrompt_tone_instruction
      [of "append ''The current date is ''" "take 10" "''2025-01-05''"
         "\<lparr>avatar = Some \<lparr>id_AvatarProfile = ''id-1'', displayName = ''Alex'', bio = [],
                          tone = Playful, expertiseTags = []\<rparr>,
          memories = []\<rparr>"]
    getSystemPrompt_tone_instruction
      [of "append ''The current date is ''" "take 10" "''2025-01-05''" initialState]
  by (simp add: initialState_def)

subsection \<open>Start of the agent\<close>

lemma digit_in_digits: "digit n \<in> set ''0123456789''"
proof -
  have "n mod 10 < length ''0123456789''" by simp
  then show ?thesis unfolding digit_def by (rule nth_mem)
qed

lemma decimal_last: "decimal n \<noteq> [] \<and> last (decimal n) = digit n"
  by (subst decimal.simps, subst decimal.simps) simp

lemma decimal_not_avatar: "decimal n \<noteq> ''avatar''"
proof
  assume "decimal n = ''avatar''"
  then have "last (decimal n) = CHR ''r''" by simp
  then have "digit n = CHR ''r''" by (simp add: decimal_last)
  with digit_in_digits [of n] show False by simp
qed

lemma decimal_not_memories: "decimal n \<noteq> ''memories''"
proof
  assume "decimal n = ''memories''"
  then have "last (decimal n) = CHR ''s''" by simp
  then have "digit n = CHR ''s''" by (simp add: decimal_last)
  with digit_in_digits [of n] show False by simp
qed

lemma index_keys_lookup:
  assumes "\<And>n. decimal n \<noteq> k"
  shows "map_of (zip (map decimal [0..<length xs]) xs) k = None"
proof -
  have "k \<notin> fst ` set (zip (map decimal [0..<length xs]) xs)"
  proof
    assume "k \<in> fst ` set (zip (map decimal [0..<length xs]) xs)"
    then obtain v where "(k, v) \<in> set (zip (map decimal [0..<length xs]) xs)"
      by auto
    then have "k \<in> set (map decimal [0..<length xs])"
      by (rule set_zip_leftD)
    with assms show False by auto
  qed
  then show ?thesis by (simp add: map_of_eq_None_iff)
qed

lemma array_no_avatar: "map_of (own_properties (JArr xs)) ''avatar'' = None"
  by (simp add: index_keys_lookup decimal_not_avatar)

lemma array_no_memories: "map_of (own_properties (JArr xs)) ''memories'' = None"
  by (simp add: index_keys_lookup decimal_not_memories)

text \<open>
  Claim C9. Whatever the state container is when the agent starts, \<^verbatim>\<open>onStart\<close> does not
  throw and leaves an object whose \<^verbatim>\<open>memories\<close> is an array. A container that is no
  object at all (\<^verbatim>\<open>undefined\<close>, \<^verbatim>\<open>null\<close>, a boolean, a number, a string) is replaced by
  \<^verbatim>\<open>{ avatar: undefined, memories: [] }\<close>. In an object whose \<^verbatim>\<open>memories\<close> is missing
  or not an array, that property alone is set to the empty array: the avatar and every
  other property stay as they are. An object whose \<^verbatim>\<open>memories\<close> is an array is left
  alone. A container that is an array becomes an object with empty \<^verbatim>\<open>memories\<close> and no
  avatar.
\<close>

theorem onStart_self_heal:
  "(\<exists>s'. onStart s = Inr s')
   \<and> (\<not> is_plain_object s \<and> \<not> isArray s \<longrightarrow>
        onStart s = Inr (JObj [(''avatar'', JUndefined), (''memories'', JArr [])]))
   \<and> (s = JObj fs \<and> (\<forall>ms. map_of fs ''memories'' \<noteq> Some (JArr ms)) \<longrightarrow>
        (\<exists>fs'. onStart s = Inr (JObj fs')
           \<and> fs' = AList.update ''memories'' (JArr []) fs
           \<and> map_of fs' ''memories'' = Some (JArr [])
           \<and> map_of fs' ''avatar'' = map_of fs ''avatar''
           \<and> (\<forall>k. k \<noteq> ''memories'' \<longrightarrow> map_of fs' k = map_of fs k)))
   \<and> (s = JObj fs \<and> map_of fs ''memories'' = Some (JArr ms) \<longrightarrow> onStart s = Inr s)
   \<and> (s = JArr xs \<longrightarrow>
        (\<exists>fs'. onStart s = Inr (JObj fs')
           \<and> map_of fs' ''memories'' = Some (JArr [])
           \<and> map_of fs' ''avatar'' = None))"
proof -
  have reset: "onStart s = Inr (JObj [(''avatar'', JUndefined), (''memories'', JArr [])])"
    if "\<not> is_plain_object s" "\<not> isArray s" for s
    using that by (cases s) (simp_all add: onStart_def)
  have heal: "onStart (JObj fs) = Inr (JObj (AList.update ''memories'' (JArr []) fs))"
    if "\<forall>ms. map_of fs ''memories'' \<noteq> Some (JArr ms)" for fs
  proof (cases "map_of fs ''memories''")
    case None
    then show ?thesis by (simp add: onStart_def)
  next
    case (Some m)
    with that have "\<not> isArray m" by (cases m) auto
    with Some show ?thesis by (simp add: onStart_def)
  qed
  have keep: "onStart (JObj fs) = Inr (JObj fs)" if "map_of fs ''memories'' = Some (JArr ms)"
    for fs ms
    using that by (simp add: onStart_def)
  have arr: "onStart (JArr xs) =
      Inr (JObj (AList.update ''memories'' (JArr []) (own_properties (JArr xs))))" for xs
    using array_no_memories [of xs] by (simp add: onStart_def del: own_properties.simps)
  have total: "\<exists>s'. onStart s = Inr s'"
  proof (cases s)
    case (JObj gs)
    show ?thesis
    proof (cases "\<exists>ms. map_of gs ''memories'' = Some (JArr ms)")
      case True
      then show ?thesis using keep JObj by auto
    next
      case False
      then show ?thesis using heal [of gs] JObj by auto
    qed
  next
    case (JArr ys)
    then show ?thesis using arr by auto
  qed (simp_all add: reset)
  have upd: "map_of (AList.update ''memories'' (JArr []) gs) = (map_of gs)(''memories'' \<mapsto> JArr [])"
    for gs :: "(string \<times> js_value) list"
    by (rule update_conv')
  show ?thesis
    using total reset heal keep arr
    by (auto simp add: upd array_no_avatar simp del: own_properties.simps)
qed

theorem onStart_self_heal_witness:
  "\<not> is_plain_object JNull \<and> \<not> isArray JNull
   \<and> onStart JNull = Inr (JObj [(''avatar'', JUndefined), (''memories'', JArr [])])
   \<and> onStart JUndefined = Inr (JObj [(''avatar'', JUndefined), (''memories'', JArr [])])
   \<and> onStart (JStr ''corrupt'') = Inr (JObj [(''avatar'', JUndefined), (''memories'', JArr [])])
   \<and> onStart (JObj [(''avatar'', JObj [(''id'', JStr ''id-1''), (''displayName'', JStr ''Alex'')]),
                    (''memories'', JStr ''corrupt'')])
       = Inr (JObj [(''avatar'', JObj [(''id'', JStr ''id-1''), (''displayName'', JStr ''Alex'')]),
                    (''memories'', JArr [])])
   \<and> onStart (JObj [(''avatar'', JObj [(''id'', JStr ''id-1''), (''displayName'', JStr ''Alex'')]),
                    (''memories'', JArr [JObj [(''content'', JStr ''m1'')]])])
       = Inr (JObj [(''avatar'', JObj [(''id'', JStr ''id-1''), (''displayName'', JStr ''Alex'')]),
                    (''memories'', JArr [JObj [(''content'', JStr ''m1'')]])])
   \<and> onStart (JArr [JNum 7]) = Inr (JObj [(''0'', JNum 7), (''memories'', JArr [])])"
  using onStart_self_heal [where s = JNull]
    onStart_self_heal [where s = JUndefined]
    onStart_self_heal [where s = "JStr ''corrupt''"]
    onStart_self_heal
      [where s = "JObj [(''avatar'', JObj [(''id'', JStr ''id-1''), (''displayName'', JStr ''Alex'')]),
                    (''memories'', JStr ''corrupt'')]"
         and fs = "[(''avatar'', JObj [(''id'', JStr ''id-1''), (''displayName'', JStr ''Alex'')]),
                    (''memories'', JStr ''corrupt'')]"]
    onStart_self_heal
      [where s = "JObj [(''avatar'', JObj [(''id'', JStr ''id-1''), (''displayName'', JStr ''Alex'')]),
                    (''memories'', JArr [JObj [(''content'', JStr ''m1'')]])]"
         and fs = "[(''avatar'', JObj [(''id'', JStr ''id-1''), (''displayName'', JStr ''Alex'')]),
                    (''memories'', JArr [JObj [(''content'', JStr ''m1'')]])]"
         and ms = "[JObj [(''content'', JStr ''m1'')]]"]
    onStart_self_heal [where s = "JArr [JNum 7]" and xs = "[JNum 7]"]
  by (simp add: onStart_def decimal.simps digit_def)

subsection \<open>Web research\<close>

lemma snippet_not_fallback: "t @ js ''...'' \<noteq> fallbackSnippet q"
proof
  assume "t @ js ''...'' = fallbackSnippet q"
  then have "rev (t @ js ''...'') = rev (fallbackSnippet q)"
    by (rule arg_cong)
  then have "take 2 (rev (t @ js ''...'')) = take 2 (rev (fallbackSnippet q))"
    by (rule arg_cong)
  then show False
    by (simp add: fallbackSnippet_def js_def)
qed

text \<open>
  Claim C10, as amended. For every query and every outcome of the fetch,
  \<^verbatim>\<open>researchWeb\<close> returns a result and throws nothing; the result carries the query as
  given and the fixed source URL. Its snippet is the fallback text, which quotes the
  query, exactly when \<^verbatim>\<open>fetch\<close> throws or reading the body throws. Whenever a body is
  read, whatever the status of the response and whatever code units the body holds,
  the snippet is the first 500 code units of the text taken from that body, followed
  by three dots, and never the fallback.
\<close>

theorem researchWeb_never_throws:
  "(\<exists>r. researchWeb fetched q = Inr r
        \<and> query r = q
        \<and> sourceUrl r = js ''https://developers.cloudflare.com/agents/''
        \<and> snippet r =
            (case fetched of
               Inl e \<Rightarrow> fallbackSnippet q
             | Inr response \<Rightarrow>
                 (case text_Response response of
                    Inl e \<Rightarrow> fallbackSnippet q
                  | Inr html \<Rightarrow> take 500 (textContent html) @ js ''...''))
        \<and> (snippet r = fallbackSnippet q) =
            (case fetched of
               Inl e \<Rightarrow> True
             | Inr response \<Rightarrow>
                 (case text_Response response of Inl e \<Rightarrow> True | Inr html \<Rightarrow> False)))
   \<and> fallbackSnippet q =
       js (''Research on '' @ [CHR 0x22]) @ q
       @ js ([CHR 0x22] @ '' completed. Cloudflare Agents SDK enables building AI-powered applications with persistent state, real-time communication, and tool integration capabilities.'')"
proof -
  have "\<exists>r. researchWeb fetched q = Inr r
        \<and> query r = q
        \<and> sourceUrl r = js ''https://developers.cloudflare.com/agents/''
        \<and> snippet r =
            (case fetched of
               Inl e \<Rightarrow> fallbackSnippet q
             | Inr response \<Rightarrow>
                 (case text_Response response of
                    Inl e \<Rightarrow> fallbackSnippet q
                  | Inr html \<Rightarrow> take 500 (textContent html) @ js ''...''))
        \<and> (snippet r = fallbackSnippet q) =
            (case fetched of
               Inl e \<Rightarrow> True
             | Inr response \<Rightarrow>
                 (case text_Response response of Inl e \<Rightarrow> True | Inr html \<Rightarrow> False))"
  proof (cases fetched)
    case (Inl e)
    then show ?thesis by (simp add: researchWeb_def try_catch_def)
  next
    case (Inr response)
    show ?thesis
    proof (cases "text_Response response")
      case (Inl e)
      with Inr show ?thesis by (simp add: researchWeb_def try_catch_def)
    next
      case inner: (Inr html)
      with Inr show ?thesis
        by (simp add: researchWeb_def try_catch_def Let_def snippet_not_fallback)
    qed
  qed
  then show ?thesis by (simp add: fallbackSnippet_def)
qed

theorem researchWeb_never_throws_witness:
  "researchWeb (Inl FetchError) (js ''agents'')
     = Inr \<lparr>query = js ''agents'', snippet = fallbackSnippet (js ''agents''),
            sourceUrl = js ''https://developers.cloudflare.com/agents/''\<rparr>
   \<and> researchWeb (Inr \<lparr>status = 200, text_Response = Inl BodyError\<rparr>) (js ''agents'')
     = Inr \<lparr>query = js ''agents'', snippet = fallbackSnippet (js ''agents''),
            sourceUrl = js ''https://developers.cloudflare.com/agents/''\<rparr>
   \<and> researchWeb (Inr \<lparr>status = 200,
                         text_Response = Inr (js ''<p>Build <b>agents</b>  on Cloudflare</p>'')\<rparr>)
         (js ''agents'')
     = Inr \<lparr>query = js ''agents'', snippet = js ''Build agents on Cloudflare...'',
            sourceUrl = js ''https://developers.cloudflare.com/agents/''\<rparr>
   \<and> researchWeb (Inr \<lparr>status = 200,
                         text_Response =
                           Inr ([0xFEFF, 0x00A0] @ js ''<p>Caf'' @ [0x00E9, 0x3000, 0x2003]
                                @ js ''ouvert</P>'' @ [0x2028])\<rparr>)
         (js ''agents'')
     = Inr \<lparr>query = js ''agents'',
            snippet = js ''Caf'' @ [0x00E9] @ js '' ouvert...'',
            sourceUrl = js ''https://developers.cloudflare.com/agents/''\<rparr>"
  using researchWeb_never_throws [of "Inl FetchError" "js ''agents''"]
    researchWeb_never_throws
      [of "Inr \<lparr>status = 200, text_Response = Inl BodyError\<rparr>" "js ''agents''"]
    researchWeb_never_throws
      [of "Inr \<lparr>status = 200,
                 text_Response = Inr (js ''<p>Build <b>agents</b>  on Cloudflare</p>'')\<rparr>"
          "js ''agents''"]
    researchWeb_never_throws
      [of "Inr \<lparr>status = 200,
                 text_Response =
                   Inr ([0xFEFF, 0x00A0] @ js ''<p>Caf'' @ [0x00E9, 0x3000, 0x2003]
                        @ js ''ouvert</P>'' @ [0x2028])\<rparr>"
          "js ''agents''"]
  by (auto simp add: textContent_def trim_def match_spaces_def match_tag_def match_element_def
     starts_with_ci_def lower_def is_space_def js_def)

text \<open>
  A response with status 404 and a body: the snippet is taken from the body of the error
  page, not the fallback text.
\<close>

theorem researchWeb_non_2xx_counterexample:
  "researchWeb (Inr \<lparr>status = 404, text_Response = Inr (js ''<h1>Not Found</h1>'')\<rparr>)
       (js ''agents'')
     = Inr \<lparr>query = js ''agents'', snippet = js ''Not Found...'',
            sourceUrl = js ''https://developers.cloudflare.com/agents/''\<rparr>
   \<and> js ''Not Found...'' \<noteq> fallbackSnippet (js ''agents'')"
  by (simp add: researchWeb_def try_catch_def Let_def fallbackSnippet_def
     textContent_def trim_def match_spaces_def match_tag_def match_element_def
     starts_with_ci_def lower_def is_space_def js_def)

end
